theory Spec2Isabelle
  imports Main
begin

section \<open>Strings\<close>

text \<open>
  A JavaScript string is a sequence of UTF-16 code units; \<open>length\<close>, \<open>slice\<close> and
  \<open>trim\<close> count code units, so \<^const>\<open>length\<close> and \<^const>\<open>take\<close> are \<open>.length\<close>
  and \<open>.slice(0, n)\<close>. A code unit is written as its number, from 0 to 65535; the
  only arithmetic on code units is that of \<open>toLowerCase\<close> on \<open>A-Z\<close>. \<open>js\<close> writes a
  literal of the source.
\<close>

type_synonym codeUnit = int

type_synonym jsString = "codeUnit list"

definition js :: "string \<Rightarrow> jsString" where
  "js s = map of_char s"

text \<open>What \<open>String.prototype.trim\<close> strips: the white space and line terminator code
  units of ECMAScript.\<close>

definition isWhiteSpace :: "codeUnit \<Rightarrow> bool" where
  "isWhiteSpace c =
     ((0x09 \<le> c \<and> c \<le> 0x0D) \<or> c = 0x20 \<or> c = 0xA0 \<or> c = 0x1680 \<or>
      (0x2000 \<le> c \<and> c \<le> 0x200A) \<or> c = 0x2028 \<or> c = 0x2029 \<or> c = 0x202F \<or>
      c = 0x205F \<or> c = 0x3000 \<or> c = 0xFEFF)"

definition trim :: "jsString \<Rightarrow> jsString" where
  "trim s = rev (dropWhile isWhiteSpace (rev (dropWhile isWhiteSpace s)))"

text \<open>The character class \<open>[a-zA-Z0-9_]\<close> of the mention pattern.\<close>

definition isWordChar :: "codeUnit \<Rightarrow> bool" where
  "isWordChar c =
     ((0x30 \<le> c \<and> c \<le> 0x39) \<or> (0x41 \<le> c \<and> c \<le> 0x5A) \<or> c = 0x5F \<or>
      (0x61 \<le> c \<and> c \<le> 0x7A))"

text \<open>\<open>toLowerCase\<close> on a captured handle: only \<open>A-Z\<close> can change there.\<close>

definition lowerChar :: "codeUnit \<Rightarrow> codeUnit" where
  "lowerChar c = (if 0x41 \<le> c \<and> c \<le> 0x5A then c + 0x20 else c)"

definition toLowerCase :: "jsString \<Rightarrow> jsString" where
  "toLowerCase s = map lowerChar s"

definition startsWith :: "jsString \<Rightarrow> jsString \<Rightarrow> bool" where
  "startsWith s p = (take (length p) s = p)"

text \<open>\<open>keywords.join(', ')\<close>\<close>

fun joinComma :: "jsString list \<Rightarrow> jsString" where
  "joinComma [] = []"
| "joinComma [k] = k"
| "joinComma (k # ks) = k @ js '', '' @ joinComma ks"

text \<open>
  \<open>[...content.matchAll(/@([a-zA-Z0-9_]+)/g)].map((m) => m[1])\<close>: the scan goes left to
  right; at an \<open>@\<close> (code unit 0x40) followed by at least one word character the greedy
  \<open>+\<close> takes the whole run, the capture group is that run, and the scan resumes behind
  it. Anywhere else the scan moves on by one code unit.
\<close>

function matchAllMentions :: "jsString \<Rightarrow> jsString list" where
  "matchAllMentions [] = []"
| "matchAllMentions (c # cs) =
     (if c = 0x40 \<and> takeWhile isWordChar cs \<noteq> []
      then takeWhile isWordChar cs # matchAllMentions (dropWhile isWordChar cs)
      else matchAllMentions cs)"
  by pat_completeness auto
termination
  by (relation "measure length") (auto simp: length_dropWhile_le less_Suc_eq_le)

definition mentionedHandlesOf :: "jsString \<Rightarrow> jsString list" where
  "mentionedHandlesOf content = map toLowerCase (matchAllMentions content)"

text \<open>
  A string leaves the process as UTF-8. A surrogate code unit that is not part of a pair
  (a high one directly followed by a low one) has no UTF-8 form and is written as the
  replacement character U+FFFD; this is also \<open>String.prototype.toWellFormed\<close>.
\<close>

definition isHighSurrogate :: "codeUnit \<Rightarrow> bool" where
  "isHighSurrogate c = (0xD800 \<le> c \<and> c \<le> 0xDBFF)"

definition isLowSurrogate :: "codeUnit \<Rightarrow> bool" where
  "isLowSurrogate c = (0xDC00 \<le> c \<and> c \<le> 0xDFFF)"

definition replaceLone :: "codeUnit \<Rightarrow> codeUnit" where
  "replaceLone c = (if isHighSurrogate c \<or> isLowSurrogate c then 0xFFFD else c)"

fun toWellFormed :: "jsString \<Rightarrow> jsString" where
  "toWellFormed [] = []"
| "toWellFormed [c] = [replaceLone c]"
| "toWellFormed (c # d # cs) =
     (if isHighSurrogate c \<and> isLowSurrogate d then c # d # toWellFormed cs
      else replaceLone c # toWellFormed (d # cs))"


text \<open>The length PostgreSQL counts for \<open>varchar(n)\<close>: code points, a pair being one.\<close>

fun codePointLength :: "jsString \<Rightarrow> nat" where
  "codePointLength [] = 0"
| "codePointLength [c] = 1"
| "codePointLength (c # d # cs) =
     (if isHighSurrogate c \<and> isLowSurrogate d then Suc (codePointLength cs)
      else Suc (codePointLength (d # cs)))"


section \<open>The relational store and the outgoing channels\<close>

type_synonym timestamp = int  \<comment> \<open>milliseconds\<close>

record userProfile =
  p_userId :: int
  p_handle :: jsString
  p_timezone :: "jsString option"
  p_expoPushToken :: "jsString option"

record conversationParticipant =
  cp_conversationId :: int
  cp_userId :: int

record conversation =
  c_id :: int
  c_lastMessageAt :: timestamp

record message =
  msg_id :: int
  msg_content :: jsString
  msg_senderId :: "int option"
  msg_roomId :: "jsString option"
  msg_conversationId :: "int option"
  msg_mentions :: "int list"
  msg_createdAt :: timestamp

record beacon =
  b_id :: int
  b_userId :: int
  b_rawText :: jsString
  b_parsedIntent :: "jsString option"
  b_embedding :: "jsString option"
  b_timezone :: "jsString option"
  b_isActive :: bool
  b_isSanitized :: bool
  b_lastMatchedAt :: "timestamp option"
  b_expiresAt :: "timestamp option"

record beaconMatch =
  bm_beaconId :: int
  bm_matchedBeaconId :: int
  bm_similarityScore :: jsString
  bm_matchReason :: "jsString option"
  bm_createdAt :: timestamp

datatype notificationType = Mention | BeaconMatch | NewDm | System

datatype notificationData =
    MentionData int jsString jsString  \<comment> \<open>messageId, roomId, senderHandle\<close>
  | BeaconMatchData int int jsString  \<comment> \<open>beaconId, matchedBeaconId, timezone\<close>
  | NewDmData int jsString  \<comment> \<open>conversationId, senderHandle\<close>

record notification =
  n_userId :: int
  n_type :: notificationType
  n_title :: jsString
  n_body :: jsString
  n_data :: notificationData
  n_isRead :: bool
  n_createdAt :: timestamp

text \<open>Socket.io rooms: \<open>timezone:<tz>\<close>, \<open>user:<id>\<close> and \<open>conversation:<id>\<close>.\<close>

datatype room = TimezoneRoom jsString | UserRoom int | ConversationRoom int

record roomPayload =
  rp_id :: int
  rp_content :: jsString
  rp_senderId :: int
  rp_senderHandle :: jsString
  rp_roomId :: jsString
  rp_createdAt :: timestamp
  rp_mentions :: "int list"

record dmPayload =
  dp_id :: int
  dp_content :: jsString
  dp_senderId :: int
  dp_senderHandle :: jsString
  dp_conversationId :: int
  dp_createdAt :: timestamp

datatype event =
    RoomMessageEvent roomPayload
  | DmMessageEvent dmPayload
  | NotificationNew notificationType jsString jsString "int option"
      \<comment> \<open>type, title, body, conversationId (for \<open>new_dm\<close>)\<close>

datatype pushData = PushMention jsString | PushNewDm int | PushBeaconMatch int

record pushMessage =
  pm_to :: jsString
  pm_title :: jsString
  pm_body :: jsString
  pm_data :: pushData
  pm_sound :: jsString
  pm_channelId :: jsString

text \<open>
  The state the handlers and the job read and write: the tables of the schema (the columns
  the modelled code reads or writes), the sequence behind \<open>messages.id\<close>, the events
  emitted through socket.io (room and event, in order) and the batches posted to the Expo
  push gateway.
\<close>

record store =
  userProfiles :: "userProfile list"
  conversationParticipants :: "conversationParticipant list"
  conversations :: "conversation list"
  messages :: "message list"
  messagesSeq :: int
  beacons :: "beacon list"
  beaconMatches :: "beaconMatch list"
  notifications :: "notification list"
  emitted :: "(room \<times> event) list"
  pushed :: "pushMessage list list"

text \<open>
  The database server stands outside the repository. An insert is a statement the server
  accepts or rejects as a whole (a text holding the code unit 0, a value longer than its
  \<open>varchar\<close>, a missing value for a \<open>NOT NULL\<close> column, a broken foreign key, ...);
  a rejected insert writes nothing and throws in the caller. An accepted text is stored
  as the server decodes it, which is \<open>storedText\<close> of what was sent.
\<close>

record database =
  acceptsMessage :: "store \<Rightarrow> message \<Rightarrow> bool"
  acceptsNotifications :: "store \<Rightarrow> notification list \<Rightarrow> bool"
  acceptsMatches :: "store \<Rightarrow> beaconMatch list \<Rightarrow> bool"
  storedText :: "jsString \<Rightarrow> jsString"

text \<open>What ends a handler or a run early: the SyntaxError of \<open>JSON.parse\<close>, the TypeError
  of a property read on \<open>null\<close> or \<open>undefined\<close>, the error of a rejected statement.
  What was written before stays written: nothing is rolled back.\<close>

datatype failure = SyntaxError | TypeError | DatabaseError

type_synonym 's attempt = "failure \<times> 's + 's"

text \<open>The state an attempt ends in, thrown or not.\<close>

definition finalState :: "'s attempt \<Rightarrow> 's" where
  "finalState r = (case r of Inl (e, s) \<Rightarrow> s | Inr s \<Rightarrow> s)"

text \<open>\<open>for (const x of xs) { body }\<close>, left by the first throw.\<close>

fun forEach :: "('s \<Rightarrow> 'x \<Rightarrow> 's attempt) \<Rightarrow> 'x list \<Rightarrow> 's \<Rightarrow> 's attempt" where
  "forEach body [] s = Inr s"
| "forEach body (x # xs) s =
     (case body s x of
        Inl e \<Rightarrow> Inl e
      | Inr s' \<Rightarrow> forEach body xs s')"


section \<open>Push notifications (services/pushNotifications)\<close>

definition sendPushNotifications :: "pushMessage list \<Rightarrow> store \<Rightarrow> store" where
  "sendPushNotifications msgs st =
     (if msgs = [] then st
      else let valid = filter (\<lambda>m. pm_to m \<noteq> [] \<and> startsWith (pm_to m) (js ''ExponentPushToken['')) msgs
           in if valid = [] then st else st\<lparr>pushed := pushed st @ [valid]\<rparr>)"

definition sendPushToUser ::
  "jsString option \<Rightarrow> jsString \<Rightarrow> jsString \<Rightarrow> pushData \<Rightarrow> store \<Rightarrow> store" where
  "sendPushToUser expoPushToken title body data st =
     (case expoPushToken of
        None \<Rightarrow> st
      | Some tok \<Rightarrow>
          if tok = [] then st
          else sendPushNotifications
                 [\<lparr>pm_to = tok, pm_title = title, pm_body = body, pm_data = data,
                   pm_sound = js ''default'', pm_channelId = js ''default''\<rparr>] st)"

text \<open>\<open>select expoPushToken from userProfiles where userId = id limit 1\<close>, then
  \<open>profile[0]?.expoPushToken\<close>.\<close>

definition expoPushTokenOf :: "store \<Rightarrow> int \<Rightarrow> jsString option" where
  "expoPushTokenOf st uid =
     (case filter (\<lambda>p. p_userId p = uid) (userProfiles st) of
        [] \<Rightarrow> None
      | p # _ \<Rightarrow> p_expoPushToken p)"


section \<open>The socket handlers (server entry point)\<close>

record socketData =
  sd_userId :: int
  sd_timezone :: jsString
  sd_handle :: jsString

definition timezoneRoom :: "socketData \<Rightarrow> jsString" where
  "timezoneRoom sd = js ''timezone:'' @ sd_timezone sd"

definition mentionTitle :: "socketData \<Rightarrow> jsString" where
  "mentionTitle sd = js ''@'' @ sd_handle sd @ js '' mentioned you''"

definition dmTitle :: "socketData \<Rightarrow> jsString" where
  "dmTitle sd = js ''Message from @'' @ sd_handle sd"

text \<open>\<open>db.insert(messages).values({...}).returning()\<close>: the row gets the next id of the
  sequence and \<open>createdAt\<close> by default; the returned row is the row as stored.\<close>

definition insertMessage ::
  "database \<Rightarrow> jsString \<Rightarrow> int \<Rightarrow> jsString option \<Rightarrow> int option \<Rightarrow> int list \<Rightarrow> timestamp \<Rightarrow> store \<Rightarrow>
     failure \<times> store + message \<times> store" where
  "insertMessage dbs content senderId roomId conversationId mentions now st =
     (let row = \<lparr>msg_id = messagesSeq st + 1, msg_content = content,
                  msg_senderId = Some senderId, msg_roomId = roomId,
                  msg_conversationId = conversationId, msg_mentions = mentions,
                  msg_createdAt = now\<rparr>
      in if \<not> acceptsMessage dbs st row then Inl (DatabaseError, st)
         else
           let msg = row\<lparr>msg_content := storedText dbs content,
                         msg_roomId := map_option (storedText dbs) roomId\<rparr>
           in Inr (msg, st\<lparr>messagesSeq := msg_id msg, messages := messages st @ [msg]\<rparr>))"

text \<open>\<open>db.insert(notifications).values(...)\<close>, one statement for all its rows;
  \<open>isRead\<close> and \<open>createdAt\<close> by default.\<close>

definition newNotification ::
  "int \<Rightarrow> notificationType \<Rightarrow> jsString \<Rightarrow> jsString \<Rightarrow> notificationData \<Rightarrow> timestamp \<Rightarrow> notification" where
  "newNotification userId type title body data now =
     \<lparr>n_userId = userId, n_type = type, n_title = title, n_body = body, n_data = data,
       n_isRead = False, n_createdAt = now\<rparr>"

definition storedNotification :: "database \<Rightarrow> notification \<Rightarrow> notification" where
  "storedNotification dbs n =
     n\<lparr>n_title := storedText dbs (n_title n), n_body := storedText dbs (n_body n)\<rparr>"

definition insertNotifications :: "database \<Rightarrow> notification list \<Rightarrow> store \<Rightarrow> store attempt" where
  "insertNotifications dbs rows st =
     (if \<not> acceptsNotifications dbs st rows then Inl (DatabaseError, st)
      else Inr (st\<lparr>notifications := notifications st @ map (storedNotification dbs) rows\<rparr>))"

text \<open>\<open>io.to(room).emit(event, payload)\<close>\<close>

definition emit :: "room \<Rightarrow> event \<Rightarrow> store \<Rightarrow> store" where
  "emit r e st = st\<lparr>emitted := emitted st @ [(r, e)]\<rparr>"

text \<open>The body of \<open>for (const mentionedId of mentionedUserIds)\<close>.\<close>

definition notifyMention ::
  "database \<Rightarrow> socketData \<Rightarrow> timestamp \<Rightarrow> jsString \<Rightarrow> int \<Rightarrow> store \<Rightarrow> int \<Rightarrow> store attempt" where
  "notifyMention dbs sd now content msgId st mentionedId =
     (if mentionedId = sd_userId sd then Inr st
      else
        case insertNotifications dbs
               [newNotification mentionedId Mention (mentionTitle sd) (take 100 content)
                  (MentionData msgId (timezoneRoom sd) (sd_handle sd)) now] st of
          Inl e \<Rightarrow> Inl e
        | Inr st1 \<Rightarrow>
            let st2 = emit (UserRoom mentionedId)
                        (NotificationNew Mention (mentionTitle sd) (take 100 content) None) st1
            in Inr (sendPushToUser (expoPushTokenOf st2 mentionedId) (mentionTitle sd)
                      (take 100 content) (PushMention (timezoneRoom sd)) st2))"

text \<open>The profiles query of the handler: only \<open>mentionedHandles[0]\<close> is looked up.\<close>

definition mentionedUserIdsOf :: "store \<Rightarrow> jsString list \<Rightarrow> int list" where
  "mentionedUserIdsOf st mentionedHandles =
     (case mentionedHandles of
        [] \<Rightarrow> []
      | h # _ \<Rightarrow> map p_userId (filter (\<lambda>p. p_handle p = h) (userProfiles st)))"

text \<open>\<open>socket.on('room:message', ...)\<close>. \<open>data.content\<close> may be missing (\<open>None\<close>).
  The payload carries the handler's own \<open>content\<close>, not the stored one.\<close>

definition room_message ::
  "database \<Rightarrow> socketData \<Rightarrow> timestamp \<Rightarrow> jsString option \<Rightarrow> store \<Rightarrow> store attempt" where
  "room_message dbs sd now dataContent st =
     (case dataContent of
        None \<Rightarrow> Inr st
      | Some raw \<Rightarrow>
          let content = trim raw in
          if content = [] \<or> length content > 2000 then Inr st
          else
            let mentionedHandles = mentionedHandlesOf content;
                mentionedUserIds = mentionedUserIdsOf st mentionedHandles
            in (case insertMessage dbs content (sd_userId sd) (Some (timezoneRoom sd)) None
                       mentionedUserIds now st of
                  Inl e \<Rightarrow> Inl e
                | Inr (msg, st1) \<Rightarrow>
                    (let payload = \<lparr>rp_id = msg_id msg, rp_content = content,
                                    rp_senderId = sd_userId sd, rp_senderHandle = sd_handle sd,
                                    rp_roomId = timezoneRoom sd,
                                    rp_createdAt = msg_createdAt msg,
                                    rp_mentions = mentionedUserIds\<rparr>;
                         st2 = emit (TimezoneRoom (sd_timezone sd)) (RoomMessageEvent payload)
                                 st1
                     in forEach (notifyMention dbs sd now content (msg_id msg))
                          mentionedUserIds st2)))"

text \<open>The body of \<open>for (const p of otherParticipants)\<close>.\<close>

definition notifyDm ::
  "database \<Rightarrow> socketData \<Rightarrow> timestamp \<Rightarrow> jsString \<Rightarrow> int \<Rightarrow> store \<Rightarrow> int \<Rightarrow> store attempt" where
  "notifyDm dbs sd now content conversationId st pUserId =
     (if pUserId = sd_userId sd then Inr st
      else
        case insertNotifications dbs
               [newNotification pUserId NewDm (dmTitle sd) (take 100 content)
                  (NewDmData conversationId (sd_handle sd)) now] st of
          Inl e \<Rightarrow> Inl e
        | Inr st1 \<Rightarrow>
            let st2 = emit (UserRoom pUserId)
                        (NotificationNew NewDm (dmTitle sd) (take 100 content)
                           (Some conversationId)) st1
            in Inr (sendPushToUser (expoPushTokenOf st2 pUserId) (dmTitle sd)
                      (take 100 content) (PushNewDm conversationId) st2))"

text \<open>The participant check of \<open>dm:message\<close>; \<open>limit 1\<close>.\<close>

definition participation :: "store \<Rightarrow> int \<Rightarrow> int \<Rightarrow> conversationParticipant list" where
  "participation st conversationId userId =
     take 1 (filter (\<lambda>cp. cp_conversationId cp = conversationId \<and> cp_userId cp = userId)
               (conversationParticipants st))"

text \<open>\<open>update(conversations).set({ lastMessageAt: new Date() }).where(id = conversationId)\<close>\<close>

definition touchConversation :: "int \<Rightarrow> timestamp \<Rightarrow> store \<Rightarrow> store" where
  "touchConversation conversationId now st =
     st\<lparr>conversations :=
          map (\<lambda>c. if c_id c = conversationId then c\<lparr>c_lastMessageAt := now\<rparr> else c)
            (conversations st)\<rparr>"

text \<open>\<open>socket.on('dm:message', ...)\<close>.\<close>

definition dm_message ::
  "database \<Rightarrow> socketData \<Rightarrow> timestamp \<Rightarrow> int \<Rightarrow> jsString option \<Rightarrow> store \<Rightarrow> store attempt" where
  "dm_message dbs sd now conversationId dataContent st =
     (case dataContent of
        None \<Rightarrow> Inr st
      | Some raw \<Rightarrow>
          let content = trim raw in
          if content = [] \<or> length content > 2000 then Inr st
          else if participation st conversationId (sd_userId sd) = [] then Inr st
          else
            (case insertMessage dbs content (sd_userId sd) None (Some conversationId) [] now
                    st of
               Inl e \<Rightarrow> Inl e
             | Inr (msg, st1) \<Rightarrow>
                 (let st2 = touchConversation conversationId now st1;
                      msgPayload = \<lparr>dp_id = msg_id msg, dp_content = content,
                                     dp_senderId = sd_userId sd, dp_senderHandle = sd_handle sd,
                                     dp_conversationId = conversationId,
                                     dp_createdAt = msg_createdAt msg\<rparr>;
                      st3 = emit (ConversationRoom conversationId) (DmMessageEvent msgPayload)
                              st2;
                      otherParticipants =
                        map cp_userId
                          (filter (\<lambda>cp. cp_conversationId cp = conversationId)
                             (conversationParticipants st3))
                  in forEach (notifyDm dbs sd now content conversationId) otherParticipants
                       st3)))"


section \<open>The comparator (services/claude)\<close>

text \<open>
  What \<open>JSON.parse\<close> gives for a keyword column: an array (its elements as \<open>join\<close>
  writes them) or a value without \<open>join\<close>.
\<close>

datatype keywordValue = KeywordArray "jsString list" | NotAnArray

text \<open>
  What \<open>JSON.parse\<close> gives for the model's answer, as the job reads it: \<open>null\<close>, or a
  value with the truth value of \<open>isMatch\<close>, \<open>score\<close> when it is a number and
  \<open>reason\<close> when it is a string (a value that is not an object has none of the three).
\<close>

datatype 'n reply =
    NullReply
  | Reply (r_isMatch: bool) (r_score: "'n option") (r_reason: "jsString option")

text \<open>
  The collaborators outside the repository. \<open>chat\<close> is the completion request, by the
  number of the comparison in the run and the four strings the prompt is built around; it
  throws (\<open>None\<close>) or gives \<open>choices[0]?.message?.content\<close>. Nothing makes it answer
  the same prompt the same way twice. \<open>parseKeywords\<close> and \<open>parseReply\<close> are
  \<open>JSON.parse\<close> (\<open>None\<close>: SyntaxError); \<open>toFixed3\<close> is
  \<open>Number.prototype.toFixed(3)\<close> on the score, whose number type is left open.
\<close>

record 'n collaborators =
  chat :: "nat \<Rightarrow> jsString \<Rightarrow> jsString \<Rightarrow> jsString \<Rightarrow> jsString \<Rightarrow> jsString option option"
  parseKeywords :: "jsString \<Rightarrow> keywordValue option"
  parseReply :: "jsString \<Rightarrow> 'n reply option"
  toFixed3 :: "'n \<Rightarrow> jsString"

text \<open>\<open>{ score: 0, reason: 'Unable to compare', isMatch: false }\<close>\<close>

definition fallbackReply :: "'n::zero reply" where
  "fallbackReply = Reply False (Some 0) (Some (js ''Unable to compare''))"

text \<open>
  \<open>compareBeacons\<close>: building the prompt calls \<open>join\<close> on both keyword values, which
  throws on a value without \<open>join\<close>; the request can throw; the answer defaults to
  \<open>{}\<close> and is parsed, a SyntaxError giving the fallback. The parsed value is returned
  unchecked.
\<close>

definition compareBeacons ::
  "'n::zero collaborators \<Rightarrow> nat \<Rightarrow> jsString \<Rightarrow> keywordValue \<Rightarrow> jsString \<Rightarrow> keywordValue \<Rightarrow> 'n reply option" where
  "compareBeacons env k intentA keywordsA intentB keywordsB =
     (case keywordsA of
        NotAnArray \<Rightarrow> None
      | KeywordArray ka \<Rightarrow>
          (case keywordsB of
             NotAnArray \<Rightarrow> None
           | KeywordArray kb \<Rightarrow>
               (case chat env k intentA (joinComma ka) intentB (joinComma kb) of
                  None \<Rightarrow> None
                | Some content \<Rightarrow>
                    let raw = (case content of None \<Rightarrow> js ''{}'' | Some c \<Rightarrow> c)
                    in (case parseReply env raw of
                          None \<Rightarrow> Some fallbackReply
                        | Some result \<Rightarrow> Some result))))"


section \<open>The daily beacon matcher (jobs/beaconMatcher)\<close>

text \<open>A row of the first query: the six columns it selects.\<close>

record activeBeacon =
  ab_id :: int
  ab_userId :: int
  ab_rawText :: jsString
  ab_parsedIntent :: "jsString option"
  ab_embedding :: "jsString option"
  ab_timezone :: "jsString option"

text \<open>
  The local variables of a run: the store, the two counters, and what the run sent out:
  the calls of \<open>compareBeacons\<close> (by the ids of the two beacons whose fields were
  passed), the pairs for which \<open>Claude comparison error\<close> went to \<open>console.error\<close>, and
  the pairs whose answer had a true \<open>isMatch\<close>.
  The argument \<open>now\<close> of the job is the time of the run: every \<open>NOW()\<close>,
  \<open>new Date()\<close> and default \<open>createdAt\<close> of one run reads it.
\<close>

record runState =
  db :: store
  totalMatches :: nat
  totalComparisons :: nat
  comparatorCalls :: "(int \<times> int) list"
  comparisonErrors :: "(int \<times> int) list"
  reportedMatches :: "(int \<times> int) list"

definition dayMs :: int where
  "dayMs = 86400000"

text \<open>The qualifying filter of the first query.\<close>

definition qualifying :: "timestamp \<Rightarrow> beacon \<Rightarrow> bool" where
  "qualifying now b =
     (b_isActive b \<and> b_isSanitized b \<and>
      (case b_expiresAt b of None \<Rightarrow> True | Some e \<Rightarrow> e > now))"

definition projectBeacon :: "beacon \<Rightarrow> activeBeacon" where
  "projectBeacon b =
     \<lparr>ab_id = b_id b, ab_userId = b_userId b, ab_rawText = b_rawText b,
       ab_parsedIntent = b_parsedIntent b, ab_embedding = b_embedding b,
       ab_timezone = b_timezone b\<rparr>"

definition selectActive :: "timestamp \<Rightarrow> store \<Rightarrow> activeBeacon list" where
  "selectActive now st = map projectBeacon (filter (qualifying now) (beacons st))"

text \<open>\<open>beacon.timezone ?? 'UTC'\<close>\<close>

definition tzKey :: "activeBeacon \<Rightarrow> jsString" where
  "tzKey b = (case ab_timezone b of None \<Rightarrow> js ''UTC'' | Some tz \<Rightarrow> tz)"

text \<open>A JavaScript \<open>Map\<close> from timezone to array, in insertion order.\<close>

type_synonym tzMap = "(jsString \<times> activeBeacon list) list"

definition mapHas :: "tzMap \<Rightarrow> jsString \<Rightarrow> bool" where
  "mapHas m k = (k \<in> set (map fst m))"

definition mapSet :: "tzMap \<Rightarrow> jsString \<Rightarrow> activeBeacon list \<Rightarrow> tzMap" where
  "mapSet m k v =
     (if mapHas m k then map (\<lambda>(k', v'). if k' = k then (k', v) else (k', v')) m
      else m @ [(k, v)])"

text \<open>\<open>byTimezone.get(tz)!.push(beacon)\<close>\<close>

definition mapGetPush :: "tzMap \<Rightarrow> jsString \<Rightarrow> activeBeacon \<Rightarrow> tzMap" where
  "mapGetPush m k b = map (\<lambda>(k', v'). if k' = k then (k', v' @ [b]) else (k', v')) m"

definition groupStep :: "tzMap \<Rightarrow> activeBeacon \<Rightarrow> tzMap" where
  "groupStep m beacon =
     (let tz = tzKey beacon;
          m1 = (if \<not> mapHas m tz then mapSet m tz [] else m)
      in mapGetPush m1 tz beacon)"

definition byTimezone :: "activeBeacon list \<Rightarrow> tzMap" where
  "byTimezone activeBeacons = foldl groupStep [] activeBeacons"

text \<open>The query behind \<open>existingMatch\<close>: an edge of the pair, in either direction, created
  less than 24 hours ago; \<open>limit 1\<close>.\<close>

definition existingMatch :: "store \<Rightarrow> timestamp \<Rightarrow> activeBeacon \<Rightarrow> activeBeacon \<Rightarrow> beaconMatch list" where
  "existingMatch st now a b =
     take 1 (filter
       (\<lambda>m. ((bm_beaconId m = ab_id a \<and> bm_matchedBeaconId m = ab_id b) \<or>
              (bm_beaconId m = ab_id b \<and> bm_matchedBeaconId m = ab_id a)) \<and>
             bm_createdAt m > now - dayMs)
       (beaconMatches st))"

text \<open>\<open>a.embedding ? JSON.parse(a.embedding) : []\<close>: a null or empty column is falsy.\<close>

definition keywordsOf :: "'n collaborators \<Rightarrow> activeBeacon \<Rightarrow> keywordValue option" where
  "keywordsOf env b =
     (case ab_embedding b of
        None \<Rightarrow> Some (KeywordArray [])
      | Some s \<Rightarrow> if s = [] then Some (KeywordArray []) else parseKeywords env s)"

text \<open>\<open>a.parsedIntent ?? a.rawText\<close>\<close>

definition intentOf :: "activeBeacon \<Rightarrow> jsString" where
  "intentOf b = (case ab_parsedIntent b of None \<Rightarrow> ab_rawText b | Some i \<Rightarrow> i)"

definition matchKey :: "beaconMatch \<Rightarrow> int \<times> int" where
  "matchKey m = (bm_beaconId m, bm_matchedBeaconId m)"

text \<open>One row of \<open>insert(beaconMatches).values([...]).onConflictDoNothing()\<close>: the unique
  constraint on \<open>(beaconId, matchedBeaconId)\<close> keeps a row whose key is taken out.\<close>

definition insertMatch :: "beaconMatch \<Rightarrow> store \<Rightarrow> store" where
  "insertMatch row st =
     (if matchKey row \<in> set (map matchKey (beaconMatches st)) then st
      else st\<lparr>beaconMatches := beaconMatches st @ [row]\<rparr>)"

text \<open>The row the job sends for the edge from \<open>x\<close> to \<open>y\<close>, and the row as stored. A
  missing \<open>reason\<close> is a NULL \<open>matchReason\<close>.\<close>

definition edgeRow ::
  "'n collaborators \<Rightarrow> timestamp \<Rightarrow> int \<Rightarrow> int \<Rightarrow> 'n \<Rightarrow> jsString option \<Rightarrow> beaconMatch" where
  "edgeRow env now x y score reason =
     \<lparr>bm_beaconId = x, bm_matchedBeaconId = y,
       bm_similarityScore = toFixed3 env score,
       bm_matchReason = reason, bm_createdAt = now\<rparr>"

definition storedMatch :: "database \<Rightarrow> beaconMatch \<Rightarrow> beaconMatch" where
  "storedMatch dbs m =
     m\<lparr>bm_similarityScore := storedText dbs (bm_similarityScore m),
       bm_matchReason := map_option (storedText dbs) (bm_matchReason m)\<rparr>"

text \<open>The two-row insert of the job: rejected as a whole, or each row stored unless its
  key is taken.\<close>

definition insertMatches :: "database \<Rightarrow> beaconMatch list \<Rightarrow> store \<Rightarrow> store attempt" where
  "insertMatches dbs rows st =
     (if \<not> acceptsMatches dbs st rows then Inl (DatabaseError, st)
      else Inr (foldl (\<lambda>s row. insertMatch (storedMatch dbs row) s) st rows))"

text \<open>The sparkles sign U+2728 of the titles.\<close>

definition sparkles :: jsString where
  "sparkles = [0x2728]"

text \<open>
  The branch \<open>if (result.isMatch) { ... }\<close> behind the counter, for a numeric score:
  the edges, the two notifications (a missing \<open>reason\<close> leaves their \<open>body\<close>, a
  \<open>NOT NULL\<close> column, without value: the statement is rejected), the two pushes, and
  \<open>lastMatchedAt\<close>.
\<close>

definition recordMatch ::
  "database \<Rightarrow> 'n collaborators \<Rightarrow> timestamp \<Rightarrow> jsString \<Rightarrow> activeBeacon \<Rightarrow> activeBeacon \<Rightarrow> 'n \<Rightarrow>
     jsString option \<Rightarrow> store \<Rightarrow> store attempt" where
  "recordMatch dbs env now timezone a b score reason st =
     (case insertMatches dbs
             [edgeRow env now (ab_id a) (ab_id b) score reason,
              edgeRow env now (ab_id b) (ab_id a) score reason] st of
        Inl e \<Rightarrow> Inl e
      | Inr st2 \<Rightarrow>
          (case reason of
             None \<Rightarrow> Inl (DatabaseError, st2)
           | Some body \<Rightarrow>
               (case insertNotifications dbs
                       [newNotification (ab_userId a) BeaconMatch
                          (sparkles @ js '' Beacon Match Found!'') body
                          (BeaconMatchData (ab_id a) (ab_id b) timezone) now,
                        newNotification (ab_userId b) BeaconMatch
                          (sparkles @ js '' Beacon Match Found!'') body
                          (BeaconMatchData (ab_id b) (ab_id a) timezone) now] st2 of
                  Inl e \<Rightarrow> Inl e
                | Inr st4 \<Rightarrow>
                    let tokenA = expoPushTokenOf st4 (ab_userId a);
                        tokenB = expoPushTokenOf st4 (ab_userId b);
                        st5 = sendPushToUser tokenA (sparkles @ js '' Beacon Match!'') body
                                (PushBeaconMatch (ab_id a)) st4;
                        st6 = sendPushToUser tokenB (sparkles @ js '' Beacon Match!'') body
                                (PushBeaconMatch (ab_id b)) st5
                    in Inr (st6\<lparr>beacons :=
                               map (\<lambda>x. if b_id x = ab_id a \<or> b_id x = ab_id b
                                         then x\<lparr>b_lastMatchedAt := Some now\<rparr> else x)
                                 (beacons st6)\<rparr>))))"

text \<open>
  The body of the inner loop, for \<open>a = tzBeacons[i]\<close> and \<open>b = tzBeacons[j]\<close>. Only
  the call of \<open>compareBeacons\<close> stands in the \<open>try\<close>: the SyntaxError of \<open>JSON.parse\<close>
  on a keyword column, the TypeError of \<open>result.isMatch\<close> on \<open>null\<close> and of
  \<open>result.score.toFixed\<close> on a score that is no number, and a rejected insert leave the
  run.
\<close>

definition matchPair ::
  "database \<Rightarrow> 'n::zero collaborators \<Rightarrow> timestamp \<Rightarrow> jsString \<Rightarrow> activeBeacon \<Rightarrow> activeBeacon \<Rightarrow>
     runState \<Rightarrow> runState attempt" where
  "matchPair dbs env now timezone a b rs =
     (if ab_userId a = ab_userId b then Inr rs
      else if existingMatch (db rs) now a b \<noteq> [] then Inr rs
      else
        let rs1 = rs\<lparr>totalComparisons := totalComparisons rs + 1\<rparr> in
        (case keywordsOf env a of
           None \<Rightarrow> Inl (SyntaxError, rs1)
         | Some keywordsA \<Rightarrow>
             (case keywordsOf env b of
                None \<Rightarrow> Inl (SyntaxError, rs1)
              | Some keywordsB \<Rightarrow>
                  let rs2 = rs1\<lparr>comparatorCalls := comparatorCalls rs1 @ [(ab_id a, ab_id b)]\<rparr> in
                  (case compareBeacons env (length (comparatorCalls rs1)) (intentOf a) keywordsA
                          (intentOf b) keywordsB of
                     None \<Rightarrow>
                       Inr (rs2\<lparr>comparisonErrors := comparisonErrors rs2 @ [(ab_id a, ab_id b)]\<rparr>)
                   | Some NullReply \<Rightarrow> Inl (TypeError, rs2)
                   | Some (Reply isMatch score reason) \<Rightarrow>
                       (if isMatch
                        then
                          let rs3 = rs2\<lparr>totalMatches := totalMatches rs2 + 1,
                                        reportedMatches :=
                                          reportedMatches rs2 @ [(ab_id a, ab_id b)]\<rparr> in
                          (case score of
                             None \<Rightarrow> Inl (TypeError, rs3)
                           | Some n \<Rightarrow>
                               (case recordMatch dbs env now timezone a b n reason (db rs3) of
                                  Inl (e, st') \<Rightarrow> Inl (e, rs3\<lparr>db := st'\<rparr>)
                                | Inr st' \<Rightarrow> Inr (rs3\<lparr>db := st'\<rparr>)))
                        else Inr rs2)))))"

text \<open>\<open>for (let j = i + 1; j < tzBeacons.length; j++)\<close>, over the beacons behind \<open>a\<close>.\<close>

fun forJ ::
  "database \<Rightarrow> 'n::zero collaborators \<Rightarrow> timestamp \<Rightarrow> jsString \<Rightarrow> activeBeacon \<Rightarrow> activeBeacon list \<Rightarrow>
     runState \<Rightarrow> runState attempt" where
  "forJ dbs env now timezone a [] rs = Inr rs"
| "forJ dbs env now timezone a (b # bs) rs =
     (case matchPair dbs env now timezone a b rs of
        Inl e \<Rightarrow> Inl e
      | Inr rs' \<Rightarrow> forJ dbs env now timezone a bs rs')"

text \<open>\<open>for (let i = 0; i < tzBeacons.length; i++)\<close>\<close>

fun forI ::
  "database \<Rightarrow> 'n::zero collaborators \<Rightarrow> timestamp \<Rightarrow> jsString \<Rightarrow> activeBeacon list \<Rightarrow>
     runState \<Rightarrow> runState attempt" where
  "forI dbs env now timezone [] rs = Inr rs"
| "forI dbs env now timezone (a # tzBeacons) rs =
     (case forJ dbs env now timezone a tzBeacons rs of
        Inl e \<Rightarrow> Inl e
      | Inr rs' \<Rightarrow> forI dbs env now timezone tzBeacons rs')"

text \<open>\<open>for (const [timezone, tzBeacons] of byTimezone)\<close>\<close>

fun forTimezones ::
  "database \<Rightarrow> 'n::zero collaborators \<Rightarrow> timestamp \<Rightarrow> tzMap \<Rightarrow> runState \<Rightarrow> runState attempt" where
  "forTimezones dbs env now [] rs = Inr rs"
| "forTimezones dbs env now ((timezone, tzBeacons) # m) rs =
     (case forI dbs env now timezone tzBeacons rs of
        Inl e \<Rightarrow> Inl e
      | Inr rs' \<Rightarrow> forTimezones dbs env now m rs')"

text \<open>How a run ends: the early return for fewer than two beacons, the summary line with
  the two counters (comparisons, new matches), or an exception.\<close>

datatype outcome = NotEnough | Done nat nat | Threw failure

definition initialRun :: "store \<Rightarrow> runState" where
  "initialRun st =
     \<lparr>db = st, totalMatches = 0, totalComparisons = 0, comparatorCalls = [],
       comparisonErrors = [], reportedMatches = []\<rparr>"

definition runBeaconMatching ::
  "database \<Rightarrow> 'n::zero collaborators \<Rightarrow> timestamp \<Rightarrow> store \<Rightarrow> runState \<times> outcome" where
  "runBeaconMatching dbs env now st =
     (let activeBeacons = selectActive now st
      in if length activeBeacons < 2 then (initialRun st, NotEnough)
         else
           case forTimezones dbs env now (byTimezone activeBeacons) (initialRun st) of
             Inl (e, rs) \<Rightarrow> (rs, Threw e)
           | Inr rs \<Rightarrow> (rs, Done (totalComparisons rs) (totalMatches rs)))"

text \<open>The pairs the three loops visit, in the order they visit them.\<close>

fun pairsOf :: "'a list \<Rightarrow> ('a \<times> 'a) list" where
  "pairsOf [] = []"
| "pairsOf (a # bs) = map (Pair a) bs @ pairsOf bs"

definition allPairs :: "tzMap \<Rightarrow> (jsString \<times> activeBeacon \<times> activeBeacon) list" where
  "allPairs m = concat (map (\<lambda>(tz, bs). map (Pair tz) (pairsOf bs)) m)"

fun forPairs ::
  "database \<Rightarrow> 'n::zero collaborators \<Rightarrow> timestamp \<Rightarrow> (jsString \<times> activeBeacon \<times> activeBeacon) list \<Rightarrow>
     runState \<Rightarrow> runState attempt" where
  "forPairs dbs env now [] rs = Inr rs"
| "forPairs dbs env now ((timezone, a, b) # ps) rs =
     (case matchPair dbs env now timezone a b rs of
        Inl e \<Rightarrow> Inl e
      | Inr rs' \<Rightarrow> forPairs dbs env now ps rs')"


section \<open>Predicates on the edge table\<close>

definition matchKeys :: "store \<Rightarrow> (int \<times> int) set" where
  "matchKeys st = set (map matchKey (beaconMatches st))"

text \<open>Every edge has its mirror edge in the table.\<close>

definition symmetricKeys :: "store \<Rightarrow> bool" where
  "symmetricKeys st =
     list_all (\<lambda>m. (bm_matchedBeaconId m, bm_beaconId m) \<in> matchKeys st) (beaconMatches st)"

text \<open>Every edge has a mirror edge with the same score and the same reason.\<close>

definition mirrored :: "store \<Rightarrow> bool" where
  "mirrored st =
     list_all
       (\<lambda>m. list_ex
          (\<lambda>m'. bm_beaconId m' = bm_matchedBeaconId m \<and> bm_matchedBeaconId m' = bm_beaconId m \<and>
                bm_similarityScore m' = bm_similarityScore m \<and>
                bm_matchReason m' = bm_matchReason m)
          (beaconMatches st))
       (beaconMatches st)"

definition bothKeys :: "store \<Rightarrow> int \<times> int \<Rightarrow> bool" where
  "bothKeys st k = (k \<in> matchKeys st \<and> (snd k, fst k) \<in> matchKeys st)"

text \<open>No edge of the pair \<open>k\<close>, in either direction, is younger than 24 hours.\<close>

definition noRecentEdge :: "store \<Rightarrow> timestamp \<Rightarrow> int \<times> int \<Rightarrow> bool" where
  "noRecentEdge st now k =
     (\<forall>m\<in>set (beaconMatches st). now - dayMs < bm_createdAt m \<longrightarrow>
        matchKey m \<noteq> k \<and> matchKey m \<noteq> (snd k, fst k))"





section \<open>Concrete stores and collaborators\<close>

definition noNul :: "jsString \<Rightarrow> bool" where
  "noNul s = (0 \<notin> set s)"

text \<open>
  PostgreSQL behind the driver, for the checks that depend on the strings alone: a text
  must not hold the code unit 0, \<open>messages.roomId\<close> is a \<open>varchar(100)\<close> and
  \<open>notifications.title\<close> a \<open>varchar(255)\<close>; the driver writes strings as UTF-8.
\<close>

definition postgres :: database where
  "postgres =
     \<lparr>acceptsMessage =
        (\<lambda>st m. noNul (msg_content m) \<and>
           (case msg_roomId m of None \<Rightarrow> True
            | Some r \<Rightarrow> noNul r \<and> codePointLength (toWellFormed r) \<le> 100)),
      acceptsNotifications =
        (\<lambda>st ns. list_all
           (\<lambda>n. noNul (n_title n) \<and> codePointLength (toWellFormed (n_title n)) \<le> 255 \<and>
                noNul (n_body n)) ns),
      acceptsMatches =
        (\<lambda>st ms. list_all
           (\<lambda>m. noNul (bm_similarityScore m) \<and>
                (case bm_matchReason m of None \<Rightarrow> True | Some r \<Rightarrow> noNul r)) ms),
      storedText = toWellFormed\<rparr>"

definition emptyStore :: store where
  "emptyStore =
     \<lparr>userProfiles = [], conversationParticipants = [], conversations = [], messages = [],
       messagesSeq = 0, beacons = [], beaconMatches = [], notifications = [], emitted = [],
       pushed = []\<rparr>"

definition mkProfile :: "int \<Rightarrow> jsString \<Rightarrow> userProfile" where
  "mkProfile uid h =
     \<lparr>p_userId = uid, p_handle = h, p_timezone = Some (js ''UTC''), p_expoPushToken = None\<rparr>"

text \<open>Three users in one timezone; alice and bob share conversation 7.\<close>

definition chatStore :: store where
  "chatStore =
     emptyStore\<lparr>userProfiles :=
                  [mkProfile 1 (js ''alice''), mkProfile 2 (js ''bob''), mkProfile 3 (js ''carol'')],
                conversations := [\<lparr>c_id = 7, c_lastMessageAt = 0\<rparr>],
                conversationParticipants :=
                  [\<lparr>cp_conversationId = 7, cp_userId = 1\<rparr>,
                   \<lparr>cp_conversationId = 7, cp_userId = 2\<rparr>]\<rparr>"

definition aliceSocket :: socketData where
  "aliceSocket = \<lparr>sd_userId = 1, sd_timezone = js ''UTC'', sd_handle = js ''alice''\<rparr>"

definition carolSocket :: socketData where
  "carolSocket = \<lparr>sd_userId = 3, sd_timezone = js ''UTC'', sd_handle = js ''carol''\<rparr>"




definition mkBeacon :: "int \<Rightarrow> int \<Rightarrow> jsString \<Rightarrow> jsString option \<Rightarrow> beacon" where
  "mkBeacon i u txt tz =
     \<lparr>b_id = i, b_userId = u, b_rawText = txt, b_parsedIntent = None, b_embedding = None,
       b_timezone = tz, b_isActive = True, b_isSanitized = True, b_lastMatchedAt = None,
       b_expiresAt = None\<rparr>"

definition seeker :: beacon where
  "seeker = mkBeacon 1 10 (js ''chess partner wanted'') (Some (js ''UTC''))"

definition teacher :: beacon where
  "teacher = mkBeacon 2 20 (js ''I teach chess'') (Some (js ''UTC''))"


definition nowhere :: beacon where
  "nowhere = mkBeacon 4 40 (js ''dog walker needed'') None"

definition parisian :: beacon where
  "parisian = mkBeacon 5 50 (js ''looking for a flat'') (Some (js ''Europe/Paris''))"

definition chessStore :: store where
  "chessStore = emptyStore\<lparr>beacons := [seeker, teacher]\<rparr>"



text \<open>Both edges of the chess pair, written at time 0.\<close>

definition matchedStore :: store where
  "matchedStore =
     chessStore\<lparr>beaconMatches :=
       [\<lparr>bm_beaconId = 1, bm_matchedBeaconId = 2, bm_similarityScore = js ''0.700'',
         bm_matchReason = Some (js ''chess''), bm_createdAt = 0\<rparr>,
        \<lparr>bm_beaconId = 2, bm_matchedBeaconId = 1, bm_similarityScore = js ''0.700'',
         bm_matchReason = Some (js ''chess''), bm_createdAt = 0\<rparr>]\<rparr>"

text \<open>Three answers of the model and what \<open>JSON.parse\<close> makes of them, the score in
  thousandths; any other text is taken as no JSON.\<close>

definition matchAnswer :: jsString where
  "matchAnswer = js ''{\"score\":0.8,\"reason\":\"both about chess\",\"isMatch\":true}''"

definition nullAnswer :: jsString where
  "nullAnswer = js ''null''"

definition parseSample :: "jsString \<Rightarrow> nat reply option" where
  "parseSample raw =
     (if raw = matchAnswer then Some (Reply True (Some 800) (Some (js ''both about chess'')))
      else if raw = nullAnswer then Some NullReply
      else if raw = js ''{}'' then Some (Reply False None None)
      else None)"

text \<open>A comparator that matches every pair.\<close>

definition alwaysMatch :: "nat collaborators" where
  "alwaysMatch =
     \<lparr>chat = (\<lambda>k intentA keywordsA intentB keywordsB. Some (Some matchAnswer)),
       parseKeywords = (\<lambda>s. None), parseReply = parseSample,
       toFixed3 = (\<lambda>n. js ''0.800'')\<rparr>"

text \<open>One whose every request throws.\<close>

definition alwaysThrows :: "nat collaborators" where
  "alwaysThrows = alwaysMatch\<lparr>chat := (\<lambda>k intentA keywordsA intentB keywordsB. None)\<rparr>"




text \<open>One whose every answer has no content, read as \<open>{}\<close>: no match.\<close>

definition emptyAnswers :: "nat collaborators" where
  "emptyAnswers =
     alwaysMatch\<lparr>chat := (\<lambda>k intentA keywordsA intentB keywordsB. Some None)\<rparr>"

section \<open>Mention scanning\<close>

lemma takeWhile_dropWhile_run:
  assumes "\<forall>c\<in>set w. P c" "rest = [] \<or> \<not> P (hd rest)"
  shows "takeWhile P (w @ rest) = w \<and> dropWhile P (w @ rest) = rest"
  using assms by (cases rest) (auto simp: takeWhile_append dropWhile_append)

lemma matchAllMentions_word_run:
  assumes "w \<noteq> []" "\<forall>c\<in>set w. isWordChar c" "rest = [] \<or> \<not> isWordChar (hd rest)"
  shows "matchAllMentions (0x40 # w @ rest) = w # matchAllMentions rest"
  using takeWhile_dropWhile_run[of w isWordChar rest] assms by simp

lemma matchAllMentions_bare_at:
  assumes "cs = [] \<or> \<not> isWordChar (hd cs)"
  shows "matchAllMentions (0x40 # cs) = matchAllMentions cs"
  using assms by (cases cs) auto

text \<open>
  C8, as the code has it. The empty string has no token. The scan passes over every code
  unit that is not an \<open>@\<close> and
  over an \<open>@\<close> that no word character follows; an \<open>@\<close> followed by a run of one or more
  word characters, taken to its end, yields that run as a token, however short or long
  the run is; the handles are the tokens in lower case. These equations determine the
  scan of every string.
\<close>

theorem mention_tokens_are_maximal_runs:
  "matchAllMentions [] = [] \<and>
   (c \<noteq> 0x40 \<longrightarrow> matchAllMentions (c # cs) = matchAllMentions cs) \<and>
   (ds = [] \<or> \<not> isWordChar (hd ds) \<longrightarrow>
      matchAllMentions (0x40 # ds) = matchAllMentions ds) \<and>
   (w \<noteq> [] \<and> (\<forall>x\<in>set w. isWordChar x) \<and> (rest = [] \<or> \<not> isWordChar (hd rest)) \<longrightarrow>
      matchAllMentions (0x40 # w @ rest) = w # matchAllMentions rest) \<and>
   mentionedHandlesOf s = map toLowerCase (matchAllMentions s)"
  using matchAllMentions_word_run[of w rest] matchAllMentions_bare_at[of ds]
  by (simp add: mentionedHandlesOf_def)

theorem mention_tokens_are_maximal_runs_witness:
  "matchAllMentions (0x68 # js ''i'') = matchAllMentions (js ''i'') \<and>
   matchAllMentions (0x40 # js '' x'') = matchAllMentions (js '' x'') \<and>
   matchAllMentions (0x40 # js ''ab'' @ js '' !'') = js ''ab'' # matchAllMentions (js '' !'') \<and>
   mentionedHandlesOf (js ''@Al'') = map toLowerCase (matchAllMentions (js ''@Al''))"
proof -
  have h1: "(0x68 :: codeUnit) \<noteq> 0x40" by simp
  have h2: "js '' x'' = [] \<or> \<not> isWordChar (hd (js '' x''))" by code_simp
  have h3: "js ''ab'' \<noteq> []" "\<forall>x\<in>set (js ''ab''). isWordChar x"
    "js '' !'' = [] \<or> \<not> isWordChar (hd (js '' !''))" by code_simp+
  from mention_tokens_are_maximal_runs
         [of "0x68" "js ''i''" "js '' x''" "js ''ab''" "js '' !''" "js ''@Al''"]
       h1 h2 h3
  show ?thesis by blast
qed

text \<open>A run of two word characters and a run of thirty-one are both taken as tokens.\<close>

theorem mention_token_length_unbounded:
  "mentionedHandlesOf (js ''@ab and @A234567890123456789012345678901!'') =
     [js ''ab'', js ''a234567890123456789012345678901''] \<and>
   length (js ''a234567890123456789012345678901'') = 31"
  by code_simp


section \<open>Text as the database stores it\<close>



section \<open>The socket handlers\<close>

lemma sendPushToUser_frame:
  "notifications (sendPushToUser t ti bo d st) = notifications st"
  "messages (sendPushToUser t ti bo d st) = messages st"
  "emitted (sendPushToUser t ti bo d st) = emitted st"
  "beaconMatches (sendPushToUser t ti bo d st) = beaconMatches st"
  "beacons (sendPushToUser t ti bo d st) = beacons st"
  by (simp_all add: sendPushToUser_def sendPushNotifications_def Let_def split: option.splits)







lemma trim_replicate: "\<not> isWhiteSpace c \<Longrightarrow> trim (replicate n c) = replicate n c"
  by (simp add: trim_def)

text \<open>
  C1, at the input of the spec's scenario: alice sends \<open>hi @bob and @carol\<close>, and bob and
  carol both have profiles. Both handles are parsed, only the first is looked up: the
  stored message and the broadcast carry bob's id alone, and bob alone is notified.
\<close>

theorem room_message_resolves_first_mention_only:
  "mentionedHandlesOf (js ''hi @bob and @carol'') = [js ''bob'', js ''carol''] \<and>
   map msg_mentions
     (messages (finalState
        (room_message postgres aliceSocket 0 (Some (js ''hi @bob and @carol'')) chatStore)))
     = [[2]] \<and>
   map n_userId
     (notifications (finalState
        (room_message postgres aliceSocket 0 (Some (js ''hi @bob and @carol'')) chatStore)))
     = [2]"
  by code_simp

text \<open>
  C5: a \<open>dm:message\<close> whose sender has no participant row for the conversation returns
  without a throw and leaves the whole state as it was, whatever the content: no message,
  no conversation update, no emitted event, no notification, no push.
\<close>

theorem dm_message_non_participant_dropped:
  assumes "\<forall>cp\<in>set (conversationParticipants st).
             \<not> (cp_conversationId cp = cid \<and> cp_userId cp = sd_userId sd)"
  shows "dm_message dbs sd now cid dataContent st = Inr st"
proof -
  have "participation st cid (sd_userId sd) = []"
    using assms by (auto simp: participation_def filter_empty_conv)
  then show ?thesis by (simp add: dm_message_def Let_def split: option.splits)
qed

theorem dm_message_non_participant_dropped_witness:
  "dm_message postgres carolSocket 5 7 (Some (js ''hello bob'')) chatStore = Inr chatStore \<and>
   dm_message postgres aliceSocket 5 7 (Some (js ''hello bob'')) chatStore \<noteq> Inr chatStore"
proof -
  have h: "\<forall>cp\<in>set (conversationParticipants chatStore).
             \<not> (cp_conversationId cp = 7 \<and> cp_userId cp = sd_userId carolSocket)"
    by code_simp
  have "messages (finalState (dm_message postgres aliceSocket 5 7 (Some (js ''hello bob'')) chatStore))
          \<noteq> messages chatStore"
    by code_simp
  then have "dm_message postgres aliceSocket 5 7 (Some (js ''hello bob'')) chatStore \<noteq> Inr chatStore"
    by (auto simp: finalState_def)
  with dm_message_non_participant_dropped[OF h, of postgres 5 "Some (js ''hello bob'')"]
  show ?thesis by simp
qed

text \<open>
  C6: content that is empty after trimming, or longer than 2000 code units after
  trimming, makes the room handler and the DM handler return without a throw and leave
  the whole state as it was.
\<close>

theorem invalid_content_dropped:
  assumes "trim raw = [] \<or> length (trim raw) > 2000"
  shows "room_message dbs sd now (Some raw) st = Inr st \<and>
         dm_message dbs sd now cid (Some raw) st = Inr st"
  using assms by (auto simp: room_message_def dm_message_def Let_def)

theorem invalid_content_dropped_witness:
  "length (trim (replicate 2001 0x61)) = 2001 \<and>
   room_message postgres aliceSocket 0 (Some (replicate 2001 0x61)) chatStore = Inr chatStore \<and>
   dm_message postgres aliceSocket 0 7 (Some (replicate 2001 0x61)) chatStore = Inr chatStore"
proof -
  have w: "\<not> isWhiteSpace 0x61" by (simp add: isWhiteSpace_def)
  have t: "trim (replicate 2001 0x61) = replicate 2001 0x61"
    by (rule trim_replicate[OF w])
  have "trim (replicate 2001 0x61) = [] \<or> length (trim (replicate 2001 0x61)) > 2000"
    by (simp add: t)
  from invalid_content_dropped[OF this, of postgres aliceSocket 0 chatStore 7] t
  show ?thesis by simp
qed





section \<open>Grouping by timezone\<close>

lemma fst_mapGetPush: "map fst (mapGetPush m k b) = map fst m"
  by (induction m) (auto simp: mapGetPush_def)

lemma map_of_mapGetPush:
  "map_of (mapGetPush m k b) k' =
     (if k' = k then map_option (\<lambda>v. v @ [b]) (map_of m k) else map_of m k')"
  by (induction m) (auto simp: mapGetPush_def)

lemma byTimezone_snoc: "byTimezone (bs @ [b]) = groupStep (byTimezone bs) b"
  by (simp add: byTimezone_def)

lemma groupStep_keys:
  "map fst (groupStep m b) =
     (if tzKey b \<in> set (map fst m) then map fst m else map fst m @ [tzKey b])"
  by (simp add: groupStep_def Let_def fst_mapGetPush mapHas_def mapSet_def)

lemma groupStep_map_of:
  "map_of (groupStep m b) k =
     (if k = tzKey b then Some ((case map_of m k of None \<Rightarrow> [] | Some v \<Rightarrow> v) @ [b])
      else map_of m k)"
proof (cases "tzKey b \<in> set (map fst m)")
  case True
  then obtain v where "map_of m (tzKey b) = Some v"
    by (metis list.set_map map_of_eq_None_iff not_None_eq)
  with True show ?thesis
    by (simp add: groupStep_def Let_def mapHas_def map_of_mapGetPush)
next
  case False
  then have "map_of m (tzKey b) = None" by (simp add: map_of_eq_None_iff)
  with False show ?thesis
    by (auto simp: groupStep_def Let_def mapHas_def mapSet_def map_of_mapGetPush map_add_def
        split: option.splits)
qed

lemma byTimezone_keys:
  "distinct (map fst (byTimezone bs)) \<and> set (map fst (byTimezone bs)) = tzKey ` set bs"
proof (induction bs rule: rev_induct)
  case Nil
  then show ?case by (simp add: byTimezone_def)
next
  case (snoc b bs)
  then show ?case by (auto simp: byTimezone_snoc groupStep_keys)
qed

lemma byTimezone_map_of:
  "map_of (byTimezone bs) k =
     (if k \<in> tzKey ` set bs then Some (filter (\<lambda>b. tzKey b = k) bs) else None)"
proof (induction bs rule: rev_induct)
  case Nil
  then show ?case by (simp add: byTimezone_def)
next
  case (snoc b bs)
  have "k \<notin> tzKey ` set bs \<Longrightarrow> filter (\<lambda>x. tzKey x = k) bs = []"
    by (auto simp: filter_empty_conv)
  with snoc show ?case by (auto simp: byTimezone_snoc groupStep_map_of)
qed

text \<open>
  C4, as the code has it. The buckets have distinct keys; the bucket of key \<open>k\<close> exists
  when some beacon has that key and holds exactly the beacons with that key, in their
  order; the key of a beacon is its timezone, and the key of a beacon without a timezone
  is \<open>UTC\<close>, the bucket of the beacons whose timezone is \<open>UTC\<close>.
\<close>

theorem byTimezone_partitions_with_UTC_default:
  "distinct (map fst (byTimezone bs)) \<and>
   map_of (byTimezone bs) k =
     (if k \<in> tzKey ` set bs then Some (filter (\<lambda>x. tzKey x = k) bs) else None) \<and>
   (ab_timezone a = Some z \<longrightarrow> tzKey a = z) \<and>
   (ab_timezone b = None \<longrightarrow> tzKey b = js ''UTC'')"
  using byTimezone_keys[of bs] byTimezone_map_of[of bs k] by (simp add: tzKey_def)

theorem byTimezone_partitions_with_UTC_default_witness:
  "ab_timezone (projectBeacon parisian) = Some (js ''Europe/Paris'') \<and>
   tzKey (projectBeacon parisian) = js ''Europe/Paris'' \<and>
   ab_timezone (projectBeacon nowhere) = None \<and>
   tzKey (projectBeacon nowhere) = js ''UTC'' \<and>
   byTimezone [projectBeacon nowhere, projectBeacon parisian, projectBeacon seeker] =
     [(js ''UTC'', [projectBeacon nowhere, projectBeacon seeker]),
      (js ''Europe/Paris'', [projectBeacon parisian])] \<and>
   distinct (map fst
     (byTimezone [projectBeacon nowhere, projectBeacon parisian, projectBeacon seeker]))"
proof -
  have h1: "ab_timezone (projectBeacon parisian) = Some (js ''Europe/Paris'')" by code_simp
  have h2: "ab_timezone (projectBeacon nowhere) = None" by code_simp
  have g: "byTimezone [projectBeacon nowhere, projectBeacon parisian, projectBeacon seeker] =
     [(js ''UTC'', [projectBeacon nowhere, projectBeacon seeker]),
      (js ''Europe/Paris'', [projectBeacon parisian])]" by code_simp
  from byTimezone_partitions_with_UTC_default
         [of "[projectBeacon nowhere, projectBeacon parisian, projectBeacon seeker]" "js ''UTC''"
             "projectBeacon parisian" "js ''Europe/Paris''" "projectBeacon nowhere"]
       h1 h2 g
  show ?thesis by blast
qed

text \<open>A beacon without a timezone lands in the bucket \<open>UTC\<close>, next to a beacon whose
  timezone is \<open>UTC\<close>; no bucket is called \<open>unknown\<close>.\<close>

theorem no_locality_goes_to_UTC_bucket:
  "ab_timezone (projectBeacon nowhere) = None \<and>
   byTimezone [projectBeacon nowhere, projectBeacon seeker] =
     [(js ''UTC'', [projectBeacon nowhere, projectBeacon seeker])] \<and>
   map_of (byTimezone [projectBeacon nowhere, projectBeacon seeker]) (js ''unknown'') = None"
  by code_simp


section \<open>The loops of the job\<close>

lemma finalState_simps:
  "finalState (Inr s) = s" "finalState (Inl (e, s)) = s"
  by (simp_all add: finalState_def)

lemma symmetricKeys_iff:
  "symmetricKeys st \<longleftrightarrow> (\<forall>x y. (x, y) \<in> matchKeys st \<longrightarrow> (y, x) \<in> matchKeys st)"
  by (auto simp: symmetricKeys_def matchKeys_def matchKey_def list_all_iff)

lemma insertMatch_matches:
  "beaconMatches (insertMatch row st) =
     (if matchKey row \<in> matchKeys st then beaconMatches st else beaconMatches st @ [row])"
  by (simp add: insertMatch_def matchKeys_def)

lemma matchKey_edgeRow: "matchKey (storedMatch dbs (edgeRow env now x y n r)) = (x, y)"
  by (simp add: matchKey_def edgeRow_def storedMatch_def)

lemma matchKeys_insertMatch:
  "matchKeys (insertMatch row st) = insert (matchKey row) (matchKeys st)"
  by (auto simp: matchKeys_def insertMatch_matches[unfolded matchKeys_def])

text \<open>The edge table behind the branch of a match, thrown or not.\<close>

lemma recordMatch_matches:
  "beaconMatches (finalState (recordMatch dbs env now tz a b n reason st)) =
     (if acceptsMatches dbs st
           [edgeRow env now (ab_id a) (ab_id b) n reason,
            edgeRow env now (ab_id b) (ab_id a) n reason]
      then beaconMatches
             (insertMatch (storedMatch dbs (edgeRow env now (ab_id b) (ab_id a) n reason))
               (insertMatch (storedMatch dbs (edgeRow env now (ab_id a) (ab_id b) n reason)) st))
      else beaconMatches st)"
  by (simp add: recordMatch_def insertMatches_def insertNotifications_def finalState_def Let_def
      sendPushToUser_frame split: option.splits)

lemma recordMatch_accepted:
  assumes "recordMatch dbs env now tz a b n reason st = Inr st'"
  shows "acceptsMatches dbs st
           [edgeRow env now (ab_id a) (ab_id b) n reason,
            edgeRow env now (ab_id b) (ab_id a) n reason]"
  using assms by (auto simp: recordMatch_def insertMatches_def split: if_splits)

lemma matchKeys_recordMatch:
  "matchKeys (finalState (recordMatch dbs env now tz a b n reason st)) =
     (if acceptsMatches dbs st
           [edgeRow env now (ab_id a) (ab_id b) n reason,
            edgeRow env now (ab_id b) (ab_id a) n reason]
      then insert (ab_id b, ab_id a) (insert (ab_id a, ab_id b) (matchKeys st))
      else matchKeys st)"
proof -
  let ?e1 = "storedMatch dbs (edgeRow env now (ab_id a) (ab_id b) n reason)"
  let ?e2 = "storedMatch dbs (edgeRow env now (ab_id b) (ab_id a) n reason)"
  have "matchKeys (finalState (recordMatch dbs env now tz a b n reason st)) =
     (if acceptsMatches dbs st
           [edgeRow env now (ab_id a) (ab_id b) n reason,
            edgeRow env now (ab_id b) (ab_id a) n reason]
      then matchKeys (insertMatch ?e2 (insertMatch ?e1 st))
      else matchKeys st)"
    by (simp add: matchKeys_def recordMatch_matches)
  then show ?thesis by (simp add: matchKeys_insertMatch matchKey_edgeRow)
qed

text \<open>The branch appends to the edge table, and only rows of the pair; nothing when both
  edges of the pair are there.\<close>

lemma recordMatch_added:
  "\<exists>added. beaconMatches (finalState (recordMatch dbs env now tz a b n reason st)) =
       beaconMatches st @ added \<and>
     (\<forall>m\<in>set added. matchKey m = (ab_id a, ab_id b) \<or> matchKey m = (ab_id b, ab_id a)) \<and>
     ((ab_id a, ab_id b) \<in> matchKeys st \<and> (ab_id b, ab_id a) \<in> matchKeys st \<longrightarrow> added = [])"
proof -
  let ?e1 = "storedMatch dbs (edgeRow env now (ab_id a) (ab_id b) n reason)"
  let ?e2 = "storedMatch dbs (edgeRow env now (ab_id b) (ab_id a) n reason)"
  let ?added = "drop (length (beaconMatches st))
      (beaconMatches (finalState (recordMatch dbs env now tz a b n reason st)))"
  have k: "matchKey ?e1 = (ab_id a, ab_id b)" "matchKey ?e2 = (ab_id b, ab_id a)"
    by (simp_all add: matchKey_edgeRow)
  have "beaconMatches (finalState (recordMatch dbs env now tz a b n reason st)) \<in>
      {beaconMatches st, beaconMatches st @ [?e1], beaconMatches st @ [?e2],
       beaconMatches st @ [?e1, ?e2]}"
    by (simp add: recordMatch_matches insertMatch_matches matchKeys_insertMatch)
  moreover have "(ab_id a, ab_id b) \<in> matchKeys st \<and> (ab_id b, ab_id a) \<in> matchKeys st \<Longrightarrow>
      beaconMatches (finalState (recordMatch dbs env now tz a b n reason st)) = beaconMatches st"
    by (simp add: recordMatch_matches insertMatch_matches matchKeys_insertMatch k)
  ultimately show ?thesis using k by (intro exI[of _ ?added]) auto
qed

text \<open>The three ways through the loop body: the pair is skipped; the body ends, thrown
  or not, without reaching the branch of a match; the branch of a match is run.\<close>

lemma matchPair_cases:
  obtains (skip) "matchPair dbs env now tz a b rs = Inr rs"
      "ab_userId a = ab_userId b \<or> existingMatch (db rs) now a b \<noteq> []"
  | (quiet) rs' where "finalState (matchPair dbs env now tz a b rs) = rs'" "db rs' = db rs"
      "ab_userId a \<noteq> ab_userId b" "existingMatch (db rs) now a b = []"
      "comparatorCalls rs' = comparatorCalls rs \<or>
       comparatorCalls rs' = comparatorCalls rs @ [(ab_id a, ab_id b)]"
      "reportedMatches rs' = reportedMatches rs \<or>
       reportedMatches rs' = reportedMatches rs @ [(ab_id a, ab_id b)]"
      "\<forall>x. matchPair dbs env now tz a b rs = Inr x \<longrightarrow>
         comparatorCalls rs' = comparatorCalls rs @ [(ab_id a, ab_id b)] \<and>
         reportedMatches rs' = reportedMatches rs"
      "\<forall>ka kb n reason. keywordsOf env a = Some ka \<and> keywordsOf env b = Some kb \<longrightarrow>
         compareBeacons env (length (comparatorCalls rs)) (intentOf a) ka (intentOf b) kb \<noteq>
           Some (Reply True (Some n) reason)"
  | (recorded) rs' ka kb n reason where "finalState (matchPair dbs env now tz a b rs) = rs'"
      "db rs' = finalState (recordMatch dbs env now tz a b n reason (db rs))"
      "ab_userId a \<noteq> ab_userId b" "existingMatch (db rs) now a b = []"
      "keywordsOf env a = Some ka" "keywordsOf env b = Some kb"
      "compareBeacons env (length (comparatorCalls rs)) (intentOf a) ka (intentOf b) kb =
         Some (Reply True (Some n) reason)"
      "comparatorCalls rs' = comparatorCalls rs @ [(ab_id a, ab_id b)]"
      "reportedMatches rs' = reportedMatches rs @ [(ab_id a, ab_id b)]"
      "\<forall>x. matchPair dbs env now tz a b rs = Inr x \<longrightarrow>
         (\<exists>y. recordMatch dbs env now tz a b n reason (db rs) = Inr y)"
proof -
  let ?k = "(ab_id a, ab_id b)"
  let ?rs1 = "rs\<lparr>totalComparisons := totalComparisons rs + 1\<rparr>"
  let ?rs2 = "?rs1\<lparr>comparatorCalls := comparatorCalls ?rs1 @ [?k]\<rparr>"
  let ?rs3 = "?rs2\<lparr>totalMatches := totalMatches ?rs2 + 1,
                   reportedMatches := reportedMatches ?rs2 @ [?k]\<rparr>"
  show ?thesis
  proof (cases "ab_userId a = ab_userId b \<or> existingMatch (db rs) now a b \<noteq> []")
    case True
    then have "matchPair dbs env now tz a b rs = Inr rs" by (auto simp: matchPair_def)
    then show ?thesis using True by (rule skip)
  next
    case pre: False
    show ?thesis
    proof (cases "keywordsOf env a")
      case None
      with pre show ?thesis
        by (intro quiet[of ?rs1]) (auto simp: matchPair_def Let_def finalState_def)
    next
      case ka: (Some ka)
      show ?thesis
      proof (cases "keywordsOf env b")
        case None
        with pre ka show ?thesis
          by (intro quiet[of ?rs1]) (auto simp: matchPair_def Let_def finalState_def)
      next
        case kb: (Some kb)
        show ?thesis
        proof (cases "compareBeacons env (length (comparatorCalls rs)) (intentOf a) ka
                        (intentOf b) kb")
          case None
          with pre ka kb show ?thesis
            by (intro quiet[of "?rs2\<lparr>comparisonErrors := comparisonErrors ?rs2 @ [?k]\<rparr>"])
               (auto simp: matchPair_def Let_def finalState_def)
        next
          case (Some r)
          show ?thesis
          proof (cases r)
            case NullReply
            with Some pre ka kb show ?thesis
              by (intro quiet[of ?rs2]) (auto simp: matchPair_def Let_def finalState_def)
          next
            case (Reply isMatch score reason)
            show ?thesis
            proof (cases isMatch)
              case False
              with Reply Some pre ka kb show ?thesis
                by (intro quiet[of ?rs2]) (auto simp: matchPair_def Let_def finalState_def)
            next
              case True
              show ?thesis
              proof (cases score)
                case None
                with True Reply Some pre ka kb show ?thesis
                  by (intro quiet[of ?rs3]) (auto simp: matchPair_def Let_def finalState_def)
              next
                case (Some n)
                let ?rec = "recordMatch dbs env now tz a b n reason (db rs)"
                have mp: "matchPair dbs env now tz a b rs =
                    (case ?rec of
                       Inl (e, st') \<Rightarrow> Inl (e, ?rs3\<lparr>db := st'\<rparr>)
                     | Inr st' \<Rightarrow> Inr (?rs3\<lparr>db := st'\<rparr>))"
                  using Some True Reply \<open>compareBeacons env (length (comparatorCalls rs))
                      (intentOf a) ka (intentOf b) kb = Some r\<close> pre ka kb
                  by (auto simp: matchPair_def Let_def split: sum.splits prod.splits)
                have fs: "finalState (matchPair dbs env now tz a b rs) =
                    ?rs3\<lparr>db := finalState ?rec\<rparr>"
                  unfolding mp by (auto simp: finalState_def split: sum.splits prod.splits)
                have inr: "\<forall>x. matchPair dbs env now tz a b rs = Inr x \<longrightarrow>
                    (\<exists>y. ?rec = Inr y)"
                  unfolding mp by (auto split: sum.splits prod.splits)
                show ?thesis
                  by (rule recorded[of "?rs3\<lparr>db := finalState ?rec\<rparr>" n reason ka kb])
                     (use fs inr pre ka kb Some True Reply
                        \<open>compareBeacons env (length (comparatorCalls rs))
                          (intentOf a) ka (intentOf b) kb = Some r\<close> in simp_all)
              qed
            qed
          qed
        qed
      qed
    qed
  qed
qed

lemma pairsOf_members: "(x, y) \<in> set (pairsOf xs) \<Longrightarrow> x \<in> set xs \<and> y \<in> set xs"
  by (induction xs) auto

text \<open>The three nested loops visit the pairs of \<open>allPairs\<close> in order.\<close>

lemma forPairs_append:
  "forPairs dbs env now (ps @ qs) rs =
     (case forPairs dbs env now ps rs of
        Inl e \<Rightarrow> Inl e | Inr rs' \<Rightarrow> forPairs dbs env now qs rs')"
  by (induction ps arbitrary: rs) (auto split: sum.splits)

lemma forJ_flat:
  "forJ dbs env now tz a bs rs = forPairs dbs env now (map (Pair tz) (map (Pair a) bs)) rs"
  by (induction bs arbitrary: rs) (auto split: sum.splits)

lemma forI_flat:
  "forI dbs env now tz bs rs = forPairs dbs env now (map (Pair tz) (pairsOf bs)) rs"
  by (induction bs arbitrary: rs) (auto simp: forPairs_append forJ_flat split: sum.splits)

lemma forTimezones_flat:
  "forTimezones dbs env now m rs = forPairs dbs env now (allPairs m) rs"
  by (induction m arbitrary: rs)
     (auto simp: allPairs_def forPairs_append forI_flat split: sum.splits)

lemma runBeaconMatching_flat:
  "runBeaconMatching dbs env now st =
     (if length (selectActive now st) < 2 then (initialRun st, NotEnough)
      else
        case forPairs dbs env now (allPairs (byTimezone (selectActive now st)))
               (initialRun st) of
          Inl (e, rs) \<Rightarrow> (rs, Threw e)
        | Inr rs \<Rightarrow> (rs, Done (totalComparisons rs) (totalMatches rs)))"
  by (simp add: runBeaconMatching_def forTimezones_flat Let_def)

lemma fst_runBeaconMatching:
  "fst (runBeaconMatching dbs env now st) =
     (if length (selectActive now st) < 2 then initialRun st
      else finalState
             (forPairs dbs env now (allPairs (byTimezone (selectActive now st)))
                (initialRun st)))"
  by (auto simp: runBeaconMatching_flat finalState_def split: sum.splits prod.splits)

text \<open>A property the loop body keeps holds in the state a run ends in, thrown or not.\<close>

lemma forPairs_invariant:
  assumes "P rs"
    and "\<And>tz a b (rs :: runState). (tz, a, b) \<in> set ps \<Longrightarrow> P rs \<Longrightarrow>
           P (finalState (matchPair dbs env now tz a b rs))"
  shows "P (finalState (forPairs dbs env now ps rs))"
  using assms
proof (induction ps arbitrary: rs)
  case Nil
  then show ?case by (simp add: finalState_def)
next
  case (Cons p ps)
  obtain tz a b where p: "p = (tz, a, b)" by (cases p) auto
  have step: "P (finalState (matchPair dbs env now tz a b rs))"
    using Cons.prems p by simp
  show ?case
  proof (cases "matchPair dbs env now tz a b rs")
    case (Inl e)
    with step show ?thesis by (simp add: p finalState_def)
  next
    case (Inr rs')
    with step have "P rs'" by (simp add: finalState_def)
    then have "P (finalState (forPairs dbs env now ps rs'))"
      using Cons.prems(2) by (intro Cons.IH) auto
    with Inr show ?thesis by (simp add: p)
  qed
qed


section \<open>The edge table under a run\<close>

lemma distinct_insertMatch:
  "distinct (map matchKey (beaconMatches st)) \<Longrightarrow>
   distinct (map matchKey (beaconMatches (insertMatch row st)))"
  by (simp add: insertMatch_def)

lemma distinct_recordMatch:
  "distinct (map matchKey (beaconMatches st)) \<Longrightarrow>
   distinct (map matchKey
     (beaconMatches (finalState (recordMatch dbs env now tz a b n reason st))))"
  by (simp add: recordMatch_matches distinct_insertMatch)

lemma distinct_matchPair:
  assumes "distinct (map matchKey (beaconMatches (db rs)))"
  shows "distinct (map matchKey
           (beaconMatches (db (finalState (matchPair dbs env now tz a b rs)))))"
  by (cases rule: matchPair_cases[of dbs env now tz a b rs])
     (use assms in \<open>auto simp: finalState_simps distinct_recordMatch\<close>)

lemma rematch_no_row:
  assumes "(ab_id a, ab_id b) \<in> matchKeys (db rs)" "(ab_id b, ab_id a) \<in> matchKeys (db rs)"
  shows "beaconMatches (db (finalState (matchPair dbs env now tz a b rs))) =
           beaconMatches (db rs)"
  by (cases rule: matchPair_cases[of dbs env now tz a b rs])
     (use assms in \<open>auto simp: finalState_simps recordMatch_matches insertMatch_matches
        matchKeys_insertMatch matchKey_edgeRow\<close>)

text \<open>
  C9: if no two rows of the edge table share their ordered pair \<open>(beaconId,
  matchedBeaconId)\<close> before a run, none do after it, whether the run ends normally or
  throws; and a pair whose two edges are in the table gets no new row from the loop
  body, whatever the age of the edges and whatever the comparator answers.
\<close>

theorem one_edge_per_ordered_pair:
  assumes "distinct (map matchKey (beaconMatches st))"
  shows "distinct (map matchKey
           (beaconMatches (db (fst (runBeaconMatching dbs env now st))))) \<and>
    ((ab_id a, ab_id b) \<in> matchKeys (db rs) \<and> (ab_id b, ab_id a) \<in> matchKeys (db rs) \<longrightarrow>
       beaconMatches (db (finalState (matchPair dbs env now tz a b rs))) =
         beaconMatches (db rs))"
proof -
  have "distinct (map matchKey
          (beaconMatches (db (finalState (forPairs dbs env now ps (initialRun st))))))" for ps
    by (rule forPairs_invariant[where P = "\<lambda>rs. distinct (map matchKey (beaconMatches (db rs)))"])
       (use assms in \<open>auto simp: initialRun_def intro: distinct_matchPair\<close>)
  then have "distinct (map matchKey
      (beaconMatches (db (fst (runBeaconMatching dbs env now st)))))"
    using assms by (simp add: fst_runBeaconMatching) (simp add: initialRun_def)
  then show ?thesis using rematch_no_row by blast
qed

theorem one_edge_per_ordered_pair_witness:
  "distinct (map matchKey (beaconMatches matchedStore)) \<and>
   snd (runBeaconMatching postgres alwaysMatch (3 * dayMs) matchedStore) = Done 1 1 \<and>
   beaconMatches (db (fst (runBeaconMatching postgres alwaysMatch (3 * dayMs) matchedStore))) =
     beaconMatches matchedStore \<and>
   distinct (map matchKey
     (beaconMatches (db (fst (runBeaconMatching postgres alwaysMatch (3 * dayMs)
        matchedStore))))) \<and>
   beaconMatches (db (finalState (matchPair postgres alwaysMatch (3 * dayMs) (js ''UTC'')
       (projectBeacon seeker) (projectBeacon teacher) (initialRun matchedStore)))) =
     beaconMatches (db (initialRun matchedStore))"
proof -
  have h: "distinct (map matchKey (beaconMatches matchedStore))" by code_simp
  have k1: "(ab_id (projectBeacon seeker), ab_id (projectBeacon teacher))
              \<in> matchKeys (db (initialRun matchedStore))" by code_simp
  have k2: "(ab_id (projectBeacon teacher), ab_id (projectBeacon seeker))
              \<in> matchKeys (db (initialRun matchedStore))" by code_simp
  have d: "snd (runBeaconMatching postgres alwaysMatch (3 * dayMs) matchedStore) = Done 1 1"
    by code_simp
  have e: "beaconMatches (db (fst (runBeaconMatching postgres alwaysMatch (3 * dayMs)
      matchedStore))) = beaconMatches matchedStore" by code_simp
  from one_edge_per_ordered_pair[OF h, of postgres alwaysMatch "3 * dayMs"
         "projectBeacon seeker" "projectBeacon teacher" "initialRun matchedStore" "js ''UTC''"]
       h k1 k2 d e
  show ?thesis by blast
qed

lemma mirrored_iff:
  "mirrored st \<longleftrightarrow>
     (\<forall>m\<in>set (beaconMatches st). \<exists>m'\<in>set (beaconMatches st).
        bm_beaconId m' = bm_matchedBeaconId m \<and> bm_matchedBeaconId m' = bm_beaconId m \<and>
        bm_similarityScore m' = bm_similarityScore m \<and> bm_matchReason m' = bm_matchReason m)"
  by (simp add: mirrored_def list_all_iff list_ex_iff)

lemma mirrored_key:
  assumes "mirrored st" "(x, y) \<in> matchKeys st"
  shows "\<exists>e1\<in>set (beaconMatches st). \<exists>e2\<in>set (beaconMatches st).
           matchKey e1 = (x, y) \<and> matchKey e2 = (y, x) \<and>
           bm_similarityScore e1 = bm_similarityScore e2 \<and> bm_matchReason e1 = bm_matchReason e2"
proof -
  from assms(2) obtain e1 where e1: "e1 \<in> set (beaconMatches st)" "matchKey e1 = (x, y)"
    by (auto simp: matchKeys_def)
  with assms(1) obtain e2 where e2: "e2 \<in> set (beaconMatches st)"
    "bm_beaconId e2 = bm_matchedBeaconId e1" "bm_matchedBeaconId e2 = bm_beaconId e1"
    "bm_similarityScore e2 = bm_similarityScore e1" "bm_matchReason e2 = bm_matchReason e1"
    unfolding mirrored_iff by blast
  have "matchKey e2 = (y, x)" using e1(2) e2(2,3) by (simp add: matchKey_def)
  with e1 e2 show ?thesis by (intro bexI[of _ e1] bexI[of _ e2]) simp_all
qed

lemma mirrored_symmetricKeys: "mirrored st \<Longrightarrow> symmetricKeys st"
  unfolding symmetricKeys_iff
proof (intro allI impI)
  fix x y
  assume "mirrored st" "(x, y) \<in> matchKeys st"
  from mirrored_key[OF this] obtain e2 where "e2 \<in> set (beaconMatches st)" "matchKey e2 = (y, x)"
    by blast
  then show "(y, x) \<in> matchKeys st" by (force simp: matchKeys_def)
qed

lemma mirrored_append_pair:
  assumes "mirrored st" "beaconMatches st' = beaconMatches st @ [e1, e2]"
    "bm_beaconId e2 = bm_matchedBeaconId e1" "bm_matchedBeaconId e2 = bm_beaconId e1"
    "bm_similarityScore e1 = bm_similarityScore e2" "bm_matchReason e1 = bm_matchReason e2"
  shows "mirrored st'"
  using assms unfolding mirrored_iff by (simp add: ball_Un)

lemma recordMatch_edges:
  assumes "(ab_id a, ab_id b) \<in> matchKeys st \<longleftrightarrow> (ab_id b, ab_id a) \<in> matchKeys st"
    "ab_id a \<noteq> ab_id b"
  shows "beaconMatches (finalState (recordMatch dbs env now tz a b n reason st)) =
     (if (ab_id a, ab_id b) \<in> matchKeys st \<or>
         \<not> acceptsMatches dbs st
             [edgeRow env now (ab_id a) (ab_id b) n reason,
              edgeRow env now (ab_id b) (ab_id a) n reason]
      then beaconMatches st
      else beaconMatches st @
             [storedMatch dbs (edgeRow env now (ab_id a) (ab_id b) n reason),
              storedMatch dbs (edgeRow env now (ab_id b) (ab_id a) n reason)])"
  using assms
  by (simp add: recordMatch_matches insertMatch_matches matchKeys_insertMatch matchKey_edgeRow)

lemma mirrored_recordMatch:
  assumes "mirrored st" "ab_id a \<noteq> ab_id b"
  shows "mirrored (finalState (recordMatch dbs env now tz a b n reason st))"
proof -
  let ?st' = "finalState (recordMatch dbs env now tz a b n reason st)"
  let ?e1 = "storedMatch dbs (edgeRow env now (ab_id a) (ab_id b) n reason)"
  let ?e2 = "storedMatch dbs (edgeRow env now (ab_id b) (ab_id a) n reason)"
  have sym: "(ab_id a, ab_id b) \<in> matchKeys st \<longleftrightarrow> (ab_id b, ab_id a) \<in> matchKeys st"
    using mirrored_symmetricKeys[OF assms(1)] by (auto simp: symmetricKeys_iff)
  have "beaconMatches ?st' = beaconMatches st \<or> beaconMatches ?st' = beaconMatches st @ [?e1, ?e2]"
    by (simp add: recordMatch_edges[OF sym assms(2)])
  then show ?thesis
  proof
    assume "beaconMatches ?st' = beaconMatches st"
    with assms(1) show ?thesis by (simp add: mirrored_def)
  next
    assume "beaconMatches ?st' = beaconMatches st @ [?e1, ?e2]"
    from mirrored_append_pair[OF assms(1) this] show ?thesis
      by (simp add: edgeRow_def storedMatch_def)
  qed
qed

lemma mirrored_matchPair:
  assumes "mirrored (db rs)" "ab_id a \<noteq> ab_id b"
  shows "mirrored (db (finalState (matchPair dbs env now tz a b rs)))"
  by (cases rule: matchPair_cases[of dbs env now tz a b rs])
     (use assms in \<open>auto simp: finalState_simps mirrored_recordMatch\<close>)

lemma pairsOf_distinct:
  "distinct (map f xs) \<Longrightarrow> (x, y) \<in> set (pairsOf xs) \<Longrightarrow> f x \<noteq> f y"
  by (induction xs) (auto dest: pairsOf_members)

lemma allPairs_distinct_ids:
  assumes "distinct (map b_id (beacons st))"
    "(tz, a, b) \<in> set (allPairs (byTimezone (selectActive now st)))"
  shows "ab_id a \<noteq> ab_id b"
proof -
  let ?bs = "selectActive now st"
  have "map ab_id ?bs = map b_id (filter (qualifying now) (beacons st))"
    by (simp add: selectActive_def projectBeacon_def)
  with assms(1) have d: "distinct (map ab_id ?bs)" by (simp add: distinct_map_filter)
  from assms(2) obtain v where v: "(tz, v) \<in> set (byTimezone ?bs)" "(a, b) \<in> set (pairsOf v)"
    by (auto simp: allPairs_def)
  have "map_of (byTimezone ?bs) tz = Some v"
    using v(1) byTimezone_keys[of ?bs] by simp
  then have "v = filter (\<lambda>b. tzKey b = tz) ?bs"
    by (simp add: byTimezone_map_of split: if_splits)
  with d have "distinct (map ab_id v)" by (simp add: distinct_map_filter)
  from pairsOf_distinct[OF this v(2)] show ?thesis .
qed

text \<open>A run over a beacon table with distinct ids keeps the mirror property.\<close>

lemma mirrored_runBeaconMatching:
  assumes "mirrored st" "distinct (map b_id (beacons st))"
  shows "mirrored (db (fst (runBeaconMatching dbs env now st)))"
proof -
  let ?ps = "allPairs (byTimezone (selectActive now st))"
  have "mirrored (db (finalState (forPairs dbs env now ?ps (initialRun st))))"
  proof (rule forPairs_invariant[where P = "\<lambda>rs. mirrored (db rs)"])
    show "mirrored (db (initialRun st))" using assms(1) by (simp add: initialRun_def)
  next
    fix tz a b and rs :: runState
    assume "(tz, a, b) \<in> set ?ps" "mirrored (db rs)"
    with allPairs_distinct_ids[OF assms(2)] show
      "mirrored (db (finalState (matchPair dbs env now tz a b rs)))"
      by (intro mirrored_matchPair) auto
  qed
  then show ?thesis
    using assms(1) by (simp add: fst_runBeaconMatching) (simp add: initialRun_def)
qed

text \<open>
  C3: on a table in which every edge has a mirror edge with the same score and reason
  (the empty table is one), the loop body for two beacons with different ids keeps that
  property and either adds no edge or adds exactly the edge from \<open>a\<close> to \<open>b\<close> and the
  edge from \<open>b\<close> to \<open>a\<close>, both in the one insert, with the same similarity score and
  the same reason, whether the body ends normally or throws. When the comparator reports
  a match with a numeric score and the database takes the insert, it adds the two edges
  if the pair has none, and in any case both edges are in the table afterwards, with one
  score and one reason.
\<close>

theorem match_edges_created_in_pairs:
  assumes "mirrored (db rs)" "ab_id a \<noteq> ab_id b"
  shows "\<exists>added.
     beaconMatches (db (finalState (matchPair dbs env now tz a b rs))) =
       beaconMatches (db rs) @ added \<and>
     (added = [] \<or>
      (\<exists>e1 e2. added = [e1, e2] \<and>
         bm_beaconId e1 = ab_id a \<and> bm_matchedBeaconId e1 = ab_id b \<and>
         bm_beaconId e2 = ab_id b \<and> bm_matchedBeaconId e2 = ab_id a \<and>
         bm_similarityScore e1 = bm_similarityScore e2 \<and>
         bm_matchReason e1 = bm_matchReason e2)) \<and>
     mirrored (db (finalState (matchPair dbs env now tz a b rs))) \<and>
     (ab_userId a \<noteq> ab_userId b \<and> existingMatch (db rs) now a b = [] \<and>
      keywordsOf env a = Some ka \<and> keywordsOf env b = Some kb \<and>
      compareBeacons env (length (comparatorCalls rs)) (intentOf a) ka (intentOf b) kb =
        Some (Reply True (Some n) reason) \<and>
      acceptsMatches dbs (db rs)
        [edgeRow env now (ab_id a) (ab_id b) n reason,
         edgeRow env now (ab_id b) (ab_id a) n reason] \<longrightarrow>
        ((ab_id a, ab_id b) \<notin> matchKeys (db rs) \<longrightarrow> added \<noteq> []) \<and>
        (\<exists>e1\<in>set (beaconMatches (db (finalState (matchPair dbs env now tz a b rs)))).
         \<exists>e2\<in>set (beaconMatches (db (finalState (matchPair dbs env now tz a b rs)))).
           matchKey e1 = (ab_id a, ab_id b) \<and> matchKey e2 = (ab_id b, ab_id a) \<and>
           bm_similarityScore e1 = bm_similarityScore e2 \<and>
           bm_matchReason e1 = bm_matchReason e2))"
proof -
  let ?rs' = "finalState (matchPair dbs env now tz a b rs)"
  let ?hit = "ab_userId a \<noteq> ab_userId b \<and> existingMatch (db rs) now a b = [] \<and>
      keywordsOf env a = Some ka \<and> keywordsOf env b = Some kb \<and>
      compareBeacons env (length (comparatorCalls rs)) (intentOf a) ka (intentOf b) kb =
        Some (Reply True (Some n) reason) \<and>
      acceptsMatches dbs (db rs)
        [edgeRow env now (ab_id a) (ab_id b) n reason,
         edgeRow env now (ab_id b) (ab_id a) n reason]"
  have sym: "(ab_id a, ab_id b) \<in> matchKeys (db rs) \<longleftrightarrow> (ab_id b, ab_id a) \<in> matchKeys (db rs)"
    using mirrored_symmetricKeys[OF assms(1)] by (auto simp: symmetricKeys_iff)
  have m: "mirrored (db ?rs')" by (rule mirrored_matchPair[OF assms])
  have unchanged: ?thesis if "db ?rs' = db rs" "\<not> ?hit"
    using that assms(1) by (intro exI[of _ "[]"]) auto
  show ?thesis
  proof (cases rule: matchPair_cases[of dbs env now tz a b rs])
    case skip
    then show ?thesis by (intro unchanged) (auto simp: finalState_simps)
  next
    case (quiet rs')
    then show ?thesis by (intro unchanged) auto
  next
    case (recorded rs' ka' kb' n' reason')
    let ?e1 = "storedMatch dbs (edgeRow env now (ab_id a) (ab_id b) n' reason')"
    let ?e2 = "storedMatch dbs (edgeRow env now (ab_id b) (ab_id a) n' reason')"
    let ?acc = "acceptsMatches dbs (db rs)
        [edgeRow env now (ab_id a) (ab_id b) n' reason',
         edgeRow env now (ab_id b) (ab_id a) n' reason']"
    from recorded have d: "db ?rs' = finalState (recordMatch dbs env now tz a b n' reason' (db rs))"
      by simp
    have same: "n = n' \<and> reason = reason'" if ?hit
      using that recorded(5,6,7) by simp
    show ?thesis
    proof (cases "(ab_id a, ab_id b) \<in> matchKeys (db rs) \<or> \<not> ?acc")
      case True
      then have e: "beaconMatches (db ?rs') = beaconMatches (db rs)"
        by (simp add: d recordMatch_edges[OF sym assms(2)])
      have in_keys: "(ab_id a, ab_id b) \<in> matchKeys (db rs)" if ?hit
        using True same[OF that] that by auto
      have x: "\<exists>e1\<in>set (beaconMatches (db ?rs')). \<exists>e2\<in>set (beaconMatches (db ?rs')).
           matchKey e1 = (ab_id a, ab_id b) \<and> matchKey e2 = (ab_id b, ab_id a) \<and>
           bm_similarityScore e1 = bm_similarityScore e2 \<and>
           bm_matchReason e1 = bm_matchReason e2" if ?hit
        using mirrored_key[OF assms(1) in_keys[OF that]] e by simp
      show ?thesis
        by (rule exI[of _ "[]"]) (use e m x in_keys in auto)
    next
      case False
      then have e: "beaconMatches (db ?rs') = beaconMatches (db rs) @ [?e1, ?e2]"
        by (simp add: d recordMatch_edges[OF sym assms(2)])
      have f: "bm_beaconId ?e1 = ab_id a" "bm_matchedBeaconId ?e1 = ab_id b"
        "bm_beaconId ?e2 = ab_id b" "bm_matchedBeaconId ?e2 = ab_id a"
        "bm_similarityScore ?e1 = bm_similarityScore ?e2"
        "bm_matchReason ?e1 = bm_matchReason ?e2"
        by (simp_all add: edgeRow_def storedMatch_def)
      have k: "matchKey ?e1 = (ab_id a, ab_id b)" "matchKey ?e2 = (ab_id b, ab_id a)"
        by (simp_all add: matchKey_edgeRow)
      have x: "\<exists>e1\<in>set (beaconMatches (db ?rs')). \<exists>e2\<in>set (beaconMatches (db ?rs')).
           matchKey e1 = (ab_id a, ab_id b) \<and> matchKey e2 = (ab_id b, ab_id a) \<and>
           bm_similarityScore e1 = bm_similarityScore e2 \<and>
           bm_matchReason e1 = bm_matchReason e2"
        unfolding e using f(5,6) k by (intro bexI[of _ ?e1] bexI[of _ ?e2]) simp_all
      have y: "\<exists>e1 e2. [?e1, ?e2] = [e1, e2] \<and>
         bm_beaconId e1 = ab_id a \<and> bm_matchedBeaconId e1 = ab_id b \<and>
         bm_beaconId e2 = ab_id b \<and> bm_matchedBeaconId e2 = ab_id a \<and>
         bm_similarityScore e1 = bm_similarityScore e2 \<and>
         bm_matchReason e1 = bm_matchReason e2"
        using f by blast
      show ?thesis
        by (rule exI[of _ "[?e1, ?e2]"]) (use e m x y in simp)
    qed
  qed
qed

theorem match_edges_created_in_pairs_witness:
  "mirrored (db (initialRun chessStore)) \<and>
   ab_id (projectBeacon seeker) \<noteq> ab_id (projectBeacon teacher) \<and>
   (ab_id (projectBeacon seeker), ab_id (projectBeacon teacher))
     \<notin> matchKeys (db (initialRun chessStore)) \<and>
   map (\<lambda>m. (matchKey m, bm_similarityScore m, bm_matchReason m))
     (beaconMatches (db (finalState (matchPair postgres alwaysMatch 0 (js ''UTC'')
        (projectBeacon seeker) (projectBeacon teacher) (initialRun chessStore))))) =
     [((1, 2), js ''0.800'', Some (js ''both about chess'')),
      ((2, 1), js ''0.800'', Some (js ''both about chess''))] \<and>
   mirrored (db (finalState (matchPair postgres alwaysMatch 0 (js ''UTC'')
        (projectBeacon seeker) (projectBeacon teacher) (initialRun chessStore)))) \<and>
   (\<exists>e1 e2.
     beaconMatches (db (finalState (matchPair postgres alwaysMatch 0 (js ''UTC'')
        (projectBeacon seeker) (projectBeacon teacher) (initialRun chessStore)))) =
       beaconMatches (db (initialRun chessStore)) @ [e1, e2] \<and>
     bm_beaconId e1 = ab_id (projectBeacon seeker) \<and>
     bm_matchedBeaconId e1 = ab_id (projectBeacon teacher) \<and>
     bm_beaconId e2 = ab_id (projectBeacon teacher) \<and>
     bm_matchedBeaconId e2 = ab_id (projectBeacon seeker) \<and>
     bm_similarityScore e1 = bm_similarityScore e2 \<and>
     bm_matchReason e1 = bm_matchReason e2)"
proof -
  let ?a = "projectBeacon seeker" and ?b = "projectBeacon teacher"
  let ?rs = "initialRun chessStore"
  let ?reason = "Some (js ''both about chess'')"
  have h1: "mirrored (db ?rs)" by code_simp
  have h2: "ab_id ?a \<noteq> ab_id ?b" by code_simp
  have h3: "ab_userId ?a \<noteq> ab_userId ?b" by code_simp
  have h4: "existingMatch (db ?rs) 0 ?a ?b = []" by code_simp
  have h5: "keywordsOf alwaysMatch ?a = Some (KeywordArray [])"
    "keywordsOf alwaysMatch ?b = Some (KeywordArray [])"
    by code_simp+
  have h6: "compareBeacons alwaysMatch (length (comparatorCalls ?rs)) (intentOf ?a)
      (KeywordArray []) (intentOf ?b) (KeywordArray []) = Some (Reply True (Some 800) ?reason)"
    by code_simp
  have h7: "acceptsMatches postgres (db ?rs)
        [edgeRow alwaysMatch 0 (ab_id ?a) (ab_id ?b) 800 ?reason,
         edgeRow alwaysMatch 0 (ab_id ?b) (ab_id ?a) 800 ?reason]" by code_simp
  have h8: "(ab_id ?a, ab_id ?b) \<notin> matchKeys (db ?rs)" by code_simp
  have e: "map (\<lambda>m. (matchKey m, bm_similarityScore m, bm_matchReason m))
     (beaconMatches (db (finalState (matchPair postgres alwaysMatch 0 (js ''UTC'') ?a ?b ?rs)))) =
     [((1, 2), js ''0.800'', ?reason), ((2, 1), js ''0.800'', ?reason)]"
    by code_simp
  from match_edges_created_in_pairs[OF h1 h2, of postgres alwaysMatch 0 "js ''UTC''"
         "KeywordArray []" "KeywordArray []" 800 ?reason]
       h3 h4 h5 h6 h7 h8
  have "\<exists>e1 e2.
     beaconMatches (db (finalState (matchPair postgres alwaysMatch 0 (js ''UTC'') ?a ?b ?rs))) =
       beaconMatches (db ?rs) @ [e1, e2] \<and>
     bm_beaconId e1 = ab_id ?a \<and> bm_matchedBeaconId e1 = ab_id ?b \<and>
     bm_beaconId e2 = ab_id ?b \<and> bm_matchedBeaconId e2 = ab_id ?a \<and>
     bm_similarityScore e1 = bm_similarityScore e2 \<and>
     bm_matchReason e1 = bm_matchReason e2"
    and "mirrored (db (finalState (matchPair postgres alwaysMatch 0 (js ''UTC'') ?a ?b ?rs)))"
    by blast+
  with h1 h2 h8 e show ?thesis by blast
qed


section \<open>Running the job twice\<close>

lemma existingMatch_keys:
  assumes "existingMatch st now a b \<noteq> []"
  shows "(ab_id a, ab_id b) \<in> matchKeys st \<or> (ab_id b, ab_id a) \<in> matchKeys st"
proof -
  from assms obtain m where "m \<in> set (beaconMatches st)"
    "(bm_beaconId m = ab_id a \<and> bm_matchedBeaconId m = ab_id b) \<or>
     (bm_beaconId m = ab_id b \<and> bm_matchedBeaconId m = ab_id a)"
    by (auto simp: existingMatch_def filter_empty_conv)
  then show ?thesis by (force simp: matchKeys_def matchKey_def)
qed

lemma existingMatch_empty:
  assumes "existingMatch st now a b = []" "m \<in> set (beaconMatches st)"
    "now - dayMs < bm_createdAt m"
  shows "matchKey m \<noteq> (ab_id a, ab_id b) \<and> matchKey m \<noteq> (ab_id b, ab_id a)"
  using assms by (auto simp: existingMatch_def filter_empty_conv matchKey_def)

lemma matches_mono_matchPair:
  "set (beaconMatches (db rs)) \<subseteq>
     set (beaconMatches (db (finalState (matchPair dbs env now tz a b rs))))"
  by (cases rule: matchPair_cases[of dbs env now tz a b rs])
     (auto simp: finalState_simps recordMatch_matches insertMatch_matches)

lemma keys_mono_matchPair:
  "matchKeys (db rs) \<subseteq> matchKeys (db (finalState (matchPair dbs env now tz a b rs)))"
  using matches_mono_matchPair[of rs dbs env now tz a b] by (auto simp: matchKeys_def)

lemma calls_mono_matchPair:
  "set (comparatorCalls rs) \<subseteq>
     set (comparatorCalls (finalState (matchPair dbs env now tz a b rs)))"
  by (cases rule: matchPair_cases[of dbs env now tz a b rs]) (auto simp: finalState_simps)

lemma sym_matchPair:
  assumes "symmetricKeys (db rs)"
  shows "symmetricKeys (db (finalState (matchPair dbs env now tz a b rs)))"
  by (cases rule: matchPair_cases[of dbs env now tz a b rs])
     (use assms in \<open>auto simp: finalState_simps symmetricKeys_iff matchKeys_recordMatch\<close>)

text \<open>The mirror property of the keys is kept by a whole run.\<close>

lemma sym_runBeaconMatching:
  assumes "symmetricKeys st"
  shows "symmetricKeys (db (fst (runBeaconMatching dbs env now st)))"
proof -
  have "symmetricKeys (db (finalState (forPairs dbs env now ps (initialRun st))))" for ps
    by (rule forPairs_invariant[where P = "\<lambda>rs. symmetricKeys (db rs)"])
       (use assms in \<open>auto simp: initialRun_def intro: sym_matchPair\<close>)
  then show ?thesis
    using assms by (simp add: fst_runBeaconMatching) (simp add: initialRun_def)
qed

text \<open>After the loop body has returned for a pair of two owners, both edges of the pair
  are in the table or the comparator has been asked about the pair.\<close>

lemma matchPair_settles:
  assumes "matchPair dbs env now tz a b rs = Inr r1" "symmetricKeys (db rs)"
    "ab_userId a \<noteq> ab_userId b"
  shows "bothKeys (db r1) (ab_id a, ab_id b) \<or> (ab_id a, ab_id b) \<in> set (comparatorCalls r1)"
proof (cases rule: matchPair_cases[of dbs env now tz a b rs])
  case skip
  with assms have "existingMatch (db rs) now a b \<noteq> []" "r1 = rs" by auto
  with existingMatch_keys[of "db rs" now a b] assms(2) show ?thesis
    by (auto simp: bothKeys_def symmetricKeys_iff)
next
  case (quiet r)
  with assms(1) show ?thesis by (simp add: finalState_simps)
next
  case (recorded r ka kb n reason)
  with assms(1) show ?thesis by (simp add: finalState_simps)
qed

text \<open>After the loop body has returned, every pair it has reported as a match has both
  its edges in the table.\<close>

lemma matchPair_reported:
  assumes "matchPair dbs env now tz a b rs = Inr r1"
    "\<forall>k\<in>set (reportedMatches rs). bothKeys (db rs) k"
  shows "\<forall>k\<in>set (reportedMatches r1). bothKeys (db r1) k"
proof -
  have r1: "finalState (matchPair dbs env now tz a b rs) = r1"
    using assms(1) by (simp add: finalState_simps)
  have mono: "matchKeys (db rs) \<subseteq> matchKeys (db r1)"
    using keys_mono_matchPair[of rs dbs env now tz a b] r1 by simp
  show ?thesis
  proof (cases rule: matchPair_cases[of dbs env now tz a b rs])
    case skip
    with assms show ?thesis by simp
  next
    case (quiet r)
    with assms r1 show ?thesis by (simp add: bothKeys_def)
  next
    case (recorded r ka kb n reason)
    from recorded(10) assms(1) obtain y where
      "recordMatch dbs env now tz a b n reason (db rs) = Inr y" by blast
    from recordMatch_accepted[OF this] recorded(1,2) r1
    have "matchKeys (db r1) =
        insert (ab_id b, ab_id a) (insert (ab_id a, ab_id b) (matchKeys (db rs)))"
      by (simp add: matchKeys_recordMatch)
    then have new: "bothKeys (db r1) (ab_id a, ab_id b)" by (simp add: bothKeys_def)
    have old: "\<forall>k\<in>set (reportedMatches rs). bothKeys (db r1) k"
      using assms(2) mono by (auto simp: bothKeys_def)
    from recorded(1,9) r1 have "reportedMatches r1 = reportedMatches rs @ [(ab_id a, ab_id b)]"
      by simp
    with new old show ?thesis by simp
  qed
qed

lemma forPairs_settles:
  assumes "forPairs dbs env now ps rs = Inr rs'" "symmetricKeys (db rs)"
    "\<forall>k\<in>set (reportedMatches rs). bothKeys (db rs) k"
  shows "matchKeys (db rs) \<subseteq> matchKeys (db rs') \<and>
         set (comparatorCalls rs) \<subseteq> set (comparatorCalls rs') \<and>
         (\<forall>k\<in>set (reportedMatches rs'). bothKeys (db rs') k) \<and>
         (\<forall>(tz, a, b)\<in>set ps. ab_userId a \<noteq> ab_userId b \<longrightarrow>
            bothKeys (db rs') (ab_id a, ab_id b) \<or>
            (ab_id a, ab_id b) \<in> set (comparatorCalls rs'))"
  using assms
proof (induction ps arbitrary: rs)
  case Nil
  then show ?case by simp
next
  case (Cons p ps)
  obtain tz a b where p: "p = (tz, a, b)" by (cases p) auto
  from Cons.prems(1) obtain r1 where
    1: "matchPair dbs env now tz a b rs = Inr r1" and 2: "forPairs dbs env now ps r1 = Inr rs'"
    by (auto simp: p split: sum.splits)
  have f: "finalState (matchPair dbs env now tz a b rs) = r1"
    using 1 by (simp add: finalState_simps)
  have s1: "symmetricKeys (db r1)"
    using sym_matchPair[OF Cons.prems(2), of dbs env now tz a b] f by simp
  have k1: "matchKeys (db rs) \<subseteq> matchKeys (db r1)"
    using keys_mono_matchPair[of rs dbs env now tz a b] f by simp
  have c1: "set (comparatorCalls rs) \<subseteq> set (comparatorCalls r1)"
    using calls_mono_matchPair[of rs dbs env now tz a b] f by simp
  have rep1: "\<forall>k\<in>set (reportedMatches r1). bothKeys (db r1) k"
    by (rule matchPair_reported[OF 1 Cons.prems(3)])
  from Cons.IH[OF 2 s1 rep1] have ih:
    "matchKeys (db r1) \<subseteq> matchKeys (db rs')"
    "set (comparatorCalls r1) \<subseteq> set (comparatorCalls rs')"
    "\<forall>k\<in>set (reportedMatches rs'). bothKeys (db rs') k"
    "\<forall>(tz, a, b)\<in>set ps. ab_userId a \<noteq> ab_userId b \<longrightarrow>
        bothKeys (db rs') (ab_id a, ab_id b) \<or> (ab_id a, ab_id b) \<in> set (comparatorCalls rs')"
    by auto
  have "ab_userId a \<noteq> ab_userId b \<longrightarrow>
      bothKeys (db rs') (ab_id a, ab_id b) \<or> (ab_id a, ab_id b) \<in> set (comparatorCalls rs')"
    using matchPair_settles[OF 1 Cons.prems(2)] ih(1,2) by (auto simp: bothKeys_def)
  with ih k1 c1 show ?case by (auto simp: p)
qed

text \<open>The loop body of a later run: every edge it adds is an edge of a pair it reports
  as a match, which the earlier run has asked the comparator about without reporting
  it.\<close>

lemma matchPair_explained:
  assumes inv: "\<exists>added. beaconMatches (db r) = beaconMatches st1 @ added \<and>
      (\<forall>m\<in>set added. \<exists>k\<in>set (reportedMatches r). k \<in> C \<and> k \<notin> R \<and>
         (matchKey m = k \<or> matchKey m = (snd k, fst k)))"
    and settled: "ab_userId a \<noteq> ab_userId b \<longrightarrow>
      bothKeys st1 (ab_id a, ab_id b) \<or> (ab_id a, ab_id b) \<in> C"
    and rep: "\<forall>k\<in>R. bothKeys st1 k"
  shows "\<exists>added. beaconMatches (db (finalState (matchPair dbs env now tz a b r))) =
        beaconMatches st1 @ added \<and>
      (\<forall>m\<in>set added. \<exists>k\<in>set (reportedMatches (finalState (matchPair dbs env now tz a b r))).
         k \<in> C \<and> k \<notin> R \<and> (matchKey m = k \<or> matchKey m = (snd k, fst k)))"
proof -
  let ?r' = "finalState (matchPair dbs env now tz a b r)"
  let ?k = "(ab_id a, ab_id b)"
  from inv obtain added where
    A: "beaconMatches (db r) = beaconMatches st1 @ added" and
    B: "\<forall>m\<in>set added. \<exists>k\<in>set (reportedMatches r). k \<in> C \<and> k \<notin> R \<and>
         (matchKey m = k \<or> matchKey m = (snd k, fst k))"
    by blast
  have keys: "matchKeys st1 \<subseteq> matchKeys (db r)" using A by (auto simp: matchKeys_def)
  show ?thesis
  proof (cases rule: matchPair_cases[of dbs env now tz a b r])
    case skip
    with inv show ?thesis by (simp add: finalState_simps)
  next
    case (quiet r')
    then have "beaconMatches (db ?r') = beaconMatches st1 @ added"
      and "set (reportedMatches r) \<subseteq> set (reportedMatches ?r')"
      using A by auto
    with B show ?thesis by (intro exI[of _ added]) blast
  next
    case (recorded r' ka kb n reason)
    from recordMatch_added[of dbs env now tz a b n reason "db r"] obtain added' where
      A': "beaconMatches (finalState (recordMatch dbs env now tz a b n reason (db r))) =
             beaconMatches (db r) @ added'"
      and K': "\<forall>m\<in>set added'. matchKey m = ?k \<or> matchKey m = (ab_id b, ab_id a)"
      and N': "?k \<in> matchKeys (db r) \<and> (ab_id b, ab_id a) \<in> matchKeys (db r) \<longrightarrow> added' = []"
      by blast
    from recorded(1,2) A A' have e: "beaconMatches (db ?r') = beaconMatches st1 @ (added @ added')"
      by simp
    from recorded(1,9) have rep': "reportedMatches ?r' = reportedMatches r @ [?k]" by simp
    have new: "?k \<in> C \<and> ?k \<notin> R" if "added' \<noteq> []"
    proof -
      from that N' have "\<not> bothKeys (db r) ?k" by (auto simp: bothKeys_def)
      with keys have nb: "\<not> bothKeys st1 ?k" by (auto simp: bothKeys_def)
      with settled recorded(3) have "?k \<in> C" by blast
      moreover from nb rep have "?k \<notin> R" by blast
      ultimately show ?thesis ..
    qed
    have "\<forall>m\<in>set (added @ added'). \<exists>k\<in>set (reportedMatches ?r'). k \<in> C \<and> k \<notin> R \<and>
         (matchKey m = k \<or> matchKey m = (snd k, fst k))"
    proof
      fix m assume "m \<in> set (added @ added')"
      then consider "m \<in> set added" | "m \<in> set added'" by auto
      then show "\<exists>k\<in>set (reportedMatches ?r'). k \<in> C \<and> k \<notin> R \<and>
         (matchKey m = k \<or> matchKey m = (snd k, fst k))"
      proof cases
        case 1
        with B rep' show ?thesis by auto
      next
        case 2
        then have "added' \<noteq> []" by auto
        from new[OF this] K' 2 rep' show ?thesis
          by (intro bexI[of _ ?k]) auto
      qed
    qed
    with e show ?thesis by blast
  qed
qed

text \<open>The comparator is only called for pairs without an edge younger than 24 hours.\<close>

lemma calls_matchPair:
  assumes "set (beaconMatches st0) \<subseteq> set (beaconMatches (db rs))"
    "\<forall>k\<in>set (comparatorCalls rs). noRecentEdge st0 now k"
  shows "\<forall>k\<in>set (comparatorCalls (finalState (matchPair dbs env now tz a b rs))).
           noRecentEdge st0 now k"
proof (cases rule: matchPair_cases[of dbs env now tz a b rs])
  case skip
  with assms show ?thesis by (simp add: finalState_simps)
next
  case (quiet r)
  have "noRecentEdge st0 now (ab_id a, ab_id b)"
    using existingMatch_empty[OF quiet(4)] assms(1) by (auto simp: noRecentEdge_def)
  with quiet assms show ?thesis by auto
next
  case (recorded r ka kb n reason)
  have "noRecentEdge st0 now (ab_id a, ab_id b)"
    using existingMatch_empty[OF recorded(4)] assms(1) by (auto simp: noRecentEdge_def)
  with recorded assms show ?thesis by auto
qed

lemma calls_forPairs:
  assumes "comparatorCalls rs = []"
  shows "\<forall>k\<in>set (comparatorCalls (finalState (forPairs dbs env now ps rs))).
           noRecentEdge (db rs) now k"
proof -
  let ?P = "\<lambda>r. set (beaconMatches (db rs)) \<subseteq> set (beaconMatches (db r)) \<and>
        (\<forall>k\<in>set (comparatorCalls r). noRecentEdge (db rs) now k)"
  have "?P (finalState (forPairs dbs env now ps rs))"
  proof (rule forPairs_invariant[where P = ?P])
    show "?P rs" using assms by simp
  next
    fix tz a b and r :: runState
    assume "(tz, a, b) \<in> set ps" and P: "?P r"
    show "?P (finalState (matchPair dbs env now tz a b r))"
      using P matches_mono_matchPair[of r dbs env now tz a b]
        calls_matchPair[of "db rs" r now dbs env tz a b]
      by blast
  qed
  then show ?thesis by simp
qed

text \<open>A run writes \<open>lastMatchedAt\<close> only, which the first query neither filters on nor
  selects: the qualifying beacons are the same after a run as before it.\<close>

lemma selectActive_recordMatch:
  "selectActive t (finalState (recordMatch dbs env now tz a b n reason st)) = selectActive t st"
proof -
  let ?upd = "\<lambda>x. if b_id x = ab_id a \<or> b_id x = ab_id b
                   then x\<lparr>b_lastMatchedAt := Some now\<rparr> else x"
  let ?st' = "finalState (recordMatch dbs env now tz a b n reason st)"
  have b: "beacons ?st' = beacons st \<or> beacons ?st' = map ?upd (beacons st)"
    by (simp add: recordMatch_def insertMatches_def insertNotifications_def finalState_def
        Let_def sendPushToUser_frame insertMatch_def split: option.splits)
  have q: "qualifying t \<circ> ?upd = qualifying t"
    by (auto simp: qualifying_def fun_eq_iff)
  have p: "projectBeacon \<circ> ?upd = projectBeacon"
    by (auto simp: projectBeacon_def fun_eq_iff)
  have "selectActive t (st\<lparr>beacons := map ?upd (beacons st)\<rparr>) = selectActive t st"
    unfolding selectActive_def by (simp add: filter_map q p del: o_apply)
  with b show ?thesis unfolding selectActive_def by auto
qed

lemma selectActive_matchPair:
  "selectActive t (db (finalState (matchPair dbs env now tz a b rs))) = selectActive t (db rs)"
  by (cases rule: matchPair_cases[of dbs env now tz a b rs])
     (auto simp: finalState_simps selectActive_recordMatch)

lemma selectActive_runBeaconMatching:
  "selectActive t (db (fst (runBeaconMatching dbs env now st))) = selectActive t st"
proof -
  have "selectActive t (db (finalState (forPairs dbs env now ps (initialRun st)))) =
          selectActive t st" for ps
    by (rule forPairs_invariant[where P = "\<lambda>rs. selectActive t (db rs) = selectActive t st"])
       (auto simp: initialRun_def selectActive_matchPair)
  then show ?thesis
    by (simp add: fst_runBeaconMatching) (simp add: initialRun_def)
qed

lemma completed_run:
  assumes "runBeaconMatching dbs env now st = (rs1, out1)" "\<forall>e. out1 \<noteq> Threw e"
    "\<not> length (selectActive now st) < 2"
  shows "forPairs dbs env now (allPairs (byTimezone (selectActive now st))) (initialRun st) =
           Inr rs1"
  using assms by (auto simp: runBeaconMatching_flat split: sum.splits prod.splits)

text \<open>
  C2, as the code has it. Take a table in which every edge has its mirror edge (the
  empty table is one, and a run keeps the property), a run that returns normally, and a
  second run on the store the first one left, at a time at which the same beacons
  qualify; the comparator may answer the second run as it likes. The second run only
  appends to the edge table, and every row it appends is an edge of a pair that it
  reports as a match and that the first run has asked the comparator about without
  reporting a match (the first call threw, or answered otherwise). So the second run
  adds no row when it reports no such pair. Every call the second run makes to the
  comparator is for a pair that has no edge, in either direction, younger than 24 hours:
  a pair with such an edge is skipped before the comparator is called.
\<close>

theorem second_run_adds_only_newly_reported_edges:
  assumes sym: "symmetricKeys st"
    and run1: "runBeaconMatching dbs env1 now1 st = (rs1, out1)"
    and ok: "\<forall>e. out1 \<noteq> Threw e"
    and same: "selectActive now2 st = selectActive now1 st"
    and run2: "runBeaconMatching dbs env2 now2 (db rs1) = (rs2, out2)"
  shows "(\<exists>added. beaconMatches (db rs2) = beaconMatches (db rs1) @ added \<and>
            (\<forall>m\<in>set added. \<exists>k\<in>set (reportedMatches rs2).
                k \<in> set (comparatorCalls rs1) \<and> k \<notin> set (reportedMatches rs1) \<and>
                (matchKey m = k \<or> matchKey m = (snd k, fst k)))) \<and>
         ((\<forall>k\<in>set (reportedMatches rs2).
             k \<in> set (comparatorCalls rs1) \<longrightarrow> k \<in> set (reportedMatches rs1)) \<longrightarrow>
            beaconMatches (db rs2) = beaconMatches (db rs1)) \<and>
         (\<forall>(x, y)\<in>set (comparatorCalls rs2). \<forall>m\<in>set (beaconMatches (db rs1)).
            now2 - dayMs < bm_createdAt m \<longrightarrow> matchKey m \<noteq> (x, y) \<and> matchKey m \<noteq> (y, x))"
proof -
  let ?ps = "allPairs (byTimezone (selectActive now1 st))"
  let ?C = "set (comparatorCalls rs1)" and ?R = "set (reportedMatches rs1)"
  let ?Q = "\<lambda>r. \<exists>added. beaconMatches (db r) = beaconMatches (db rs1) @ added \<and>
      (\<forall>m\<in>set added. \<exists>k\<in>set (reportedMatches r). k \<in> ?C \<and> k \<notin> ?R \<and>
         (matchKey m = k \<or> matchKey m = (snd k, fst k)))"
  have rs2: "rs2 = fst (runBeaconMatching dbs env2 now2 (db rs1))" using run2 by simp
  have "selectActive now2 (db rs1) = selectActive now2 st"
    using selectActive_runBeaconMatching[of now2 dbs env1 now1 st] run1 by simp
  with same have same': "selectActive now2 (db rs1) = selectActive now1 st" by simp
  have main: "?Q rs2 \<and> (\<forall>k\<in>set (comparatorCalls rs2). noRecentEdge (db rs1) now2 k)"
  proof (cases "length (selectActive now1 st) < 2")
    case True
    then have "rs2 = initialRun (db rs1)" using same' by (simp add: rs2 fst_runBeaconMatching)
    then show ?thesis by (simp add: initialRun_def)
  next
    case False
    from completed_run[OF run1 ok False]
    have f1: "forPairs dbs env1 now1 ?ps (initialRun st) = Inr rs1" .
    have 2: "rs2 = finalState (forPairs dbs env2 now2 ?ps (initialRun (db rs1)))"
      using False same' by (simp add: rs2 fst_runBeaconMatching)
    from forPairs_settles[OF f1] sym
    have settled: "\<forall>(tz, a, b)\<in>set ?ps. ab_userId a \<noteq> ab_userId b \<longrightarrow>
        bothKeys (db rs1) (ab_id a, ab_id b) \<or> (ab_id a, ab_id b) \<in> ?C"
      and rep: "\<forall>k\<in>?R. bothKeys (db rs1) k"
      by (simp_all add: initialRun_def)
    have "?Q (finalState (forPairs dbs env2 now2 ?ps (initialRun (db rs1))))"
    proof (rule forPairs_invariant[where P = ?Q])
      show "?Q (initialRun (db rs1))" by (simp add: initialRun_def)
    next
      fix tz a b and r :: runState
      assume in_ps: "(tz, a, b) \<in> set ?ps" and Q: "?Q r"
      from in_ps settled have s: "ab_userId a \<noteq> ab_userId b \<longrightarrow>
        bothKeys (db rs1) (ab_id a, ab_id b) \<or> (ab_id a, ab_id b) \<in> ?C" by auto
      show "?Q (finalState (matchPair dbs env2 now2 tz a b r))"
        by (rule matchPair_explained[OF Q s rep])
    qed
    then have q: "?Q rs2" by (simp add: 2)
    have "\<forall>k\<in>set (comparatorCalls rs2). noRecentEdge (db rs1) now2 k"
      using calls_forPairs[of "initialRun (db rs1)" dbs env2 now2 ?ps]
      by (simp add: 2 initialRun_def)
    with q show ?thesis ..
  qed
  then obtain added where
    a: "beaconMatches (db rs2) = beaconMatches (db rs1) @ added" and
    b: "\<forall>m\<in>set added. \<exists>k\<in>set (reportedMatches rs2). k \<in> ?C \<and> k \<notin> ?R \<and>
         (matchKey m = k \<or> matchKey m = (snd k, fst k))"
    and c: "\<forall>k\<in>set (comparatorCalls rs2). noRecentEdge (db rs1) now2 k"
    by blast
  have none: "added = []"
    if "\<forall>k\<in>set (reportedMatches rs2). k \<in> ?C \<longrightarrow> k \<in> ?R"
  proof (rule ccontr)
    assume "added \<noteq> []"
    then obtain m where "m \<in> set added" by (cases added) auto
    with b that show False by blast
  qed
  from a b have 1: "\<exists>added. beaconMatches (db rs2) = beaconMatches (db rs1) @ added \<and>
            (\<forall>m\<in>set added. \<exists>k\<in>set (reportedMatches rs2).
                k \<in> ?C \<and> k \<notin> ?R \<and> (matchKey m = k \<or> matchKey m = (snd k, fst k)))"
    by blast
  from a none have 2: "(\<forall>k\<in>set (reportedMatches rs2). k \<in> ?C \<longrightarrow> k \<in> ?R) \<longrightarrow>
      beaconMatches (db rs2) = beaconMatches (db rs1)" by simp
  from c have 3: "\<forall>(x, y)\<in>set (comparatorCalls rs2). \<forall>m\<in>set (beaconMatches (db rs1)).
            now2 - dayMs < bm_createdAt m \<longrightarrow> matchKey m \<noteq> (x, y) \<and> matchKey m \<noteq> (y, x)"
    by (auto simp: noRecentEdge_def)
  from 1 2 3 show ?thesis by blast
qed

theorem second_run_adds_only_newly_reported_edges_witness:
  "symmetricKeys chessStore \<and>
   snd (runBeaconMatching postgres alwaysMatch 0 chessStore) = Done 1 1 \<and>
   map matchKey (beaconMatches (db (fst (runBeaconMatching postgres alwaysMatch 0 chessStore)))) =
     [(1, 2), (2, 1)] \<and>
   map n_userId (notifications (db (fst (runBeaconMatching postgres alwaysMatch 0 chessStore)))) =
     [10, 20] \<and>
   selectActive 1000 chessStore = selectActive 0 chessStore \<and>
   reportedMatches (fst (runBeaconMatching postgres alwaysMatch 1000
       (db (fst (runBeaconMatching postgres alwaysMatch 0 chessStore))))) = [] \<and>
   comparatorCalls (fst (runBeaconMatching postgres alwaysMatch 1000
       (db (fst (runBeaconMatching postgres alwaysMatch 0 chessStore))))) = [] \<and>
   beaconMatches (db (fst (runBeaconMatching postgres alwaysMatch 1000
       (db (fst (runBeaconMatching postgres alwaysMatch 0 chessStore)))))) =
     beaconMatches (db (fst (runBeaconMatching postgres alwaysMatch 0 chessStore)))"
proof -
  let ?r1 = "runBeaconMatching postgres alwaysMatch 0 chessStore"
  let ?r2 = "runBeaconMatching postgres alwaysMatch 1000 (db (fst ?r1))"
  have h1: "symmetricKeys chessStore" by code_simp
  have h2: "?r1 = (fst ?r1, snd ?r1)" by simp
  have d: "snd ?r1 = Done 1 1" by code_simp
  then have h3: "\<forall>e. snd ?r1 \<noteq> Threw e" by simp
  have h4: "selectActive 1000 chessStore = selectActive 0 chessStore" by code_simp
  have h5: "?r2 = (fst ?r2, snd ?r2)" by simp
  have k: "map matchKey (beaconMatches (db (fst ?r1))) = [(1, 2), (2, 1)]" by code_simp
  have n: "map n_userId (notifications (db (fst ?r1))) = [10, 20]" by code_simp
  have r: "reportedMatches (fst ?r2) = []" by code_simp
  have c: "comparatorCalls (fst ?r2) = []" by code_simp
  from second_run_adds_only_newly_reported_edges[OF h1 h2 h3 h4 h5] r
  have "beaconMatches (db (fst ?r2)) = beaconMatches (db (fst ?r1))" by simp
  with h1 d k n h4 r c show ?thesis by simp
qed

text \<open>
  Two runs in immediate succession over the same two beacons, on an empty edge table.
  The request of the first run throws, or is answered with no match: the run returns
  normally with one comparison and no edge. The request of the second run is answered
  with a match: the second run adds both edges of the pair.
\<close>

theorem second_run_adds_edges_after_failed_comparison:
  "symmetricKeys chessStore \<and>
   selectActive 1000 chessStore = selectActive 0 chessStore \<and>
   snd (runBeaconMatching postgres alwaysThrows 0 chessStore) = Done 1 0 \<and>
   beaconMatches (db (fst (runBeaconMatching postgres alwaysThrows 0 chessStore))) = [] \<and>
   map matchKey (beaconMatches (db (fst (runBeaconMatching postgres alwaysMatch 1000
       (db (fst (runBeaconMatching postgres alwaysThrows 0 chessStore))))))) =
     [(1, 2), (2, 1)] \<and>
   snd (runBeaconMatching postgres emptyAnswers 0 chessStore) = Done 1 0 \<and>
   beaconMatches (db (fst (runBeaconMatching postgres emptyAnswers 0 chessStore))) = [] \<and>
   map matchKey (beaconMatches (db (fst (runBeaconMatching postgres alwaysMatch 1000
       (db (fst (runBeaconMatching postgres emptyAnswers 0 chessStore))))))) =
     [(1, 2), (2, 1)]"
  by code_simp


section \<open>A throwing comparator\<close>




end
